theory Spec2Isabelle
  imports Complex_Main "HOL-Library.AList" "HOL-Library.Log_Nat"
begin

section \<open>Dates and times\<close>

text \<open>
  The program works on Python \<^verbatim>\<open>datetime\<close> values: \<^verbatim>\<open>datetime.now()\<close> and the result
  of \<^verbatim>\<open>datetime.fromisoformat\<close> on the deadline string of a task. Both are naive
  datetimes (no UTC offset): the backend serialises its deadlines without an offset.
  A naive datetime is a calendar date and a time of day. The date is kept as its
  proleptic Gregorian ordinal (\<^verbatim>\<open>date.toordinal()\<close>, day 1 is 0001-01-01, a Monday), the
  time of day as microseconds since midnight. Python orders naive datetimes
  lexicographically on (year, month, day, hour, minute, second, microsecond), which is
  the lexicographic order on (ordinal, time of day).
\<close>

record datetime =
  ordinal :: int
  tod :: int

text \<open>\<^verbatim>\<open>dt.date()\<close>, as the ordinal of the date.\<close>

definition date_of :: "datetime \<Rightarrow> int" where
  "date_of dt = ordinal dt"

text \<open>\<^verbatim>\<open>dt.weekday()\<close>: Monday is 0, Sunday is 6.\<close>

definition weekday :: "datetime \<Rightarrow> int" where
  "weekday dt = (ordinal dt + 6) mod 7"

text \<open>\<^verbatim>\<open>a < b\<close> and \<^verbatim>\<open>a >= b\<close> on naive datetimes.\<close>

definition dt_less :: "datetime \<Rightarrow> datetime \<Rightarrow> bool" where
  "dt_less a b = (ordinal a < ordinal b \<or> (ordinal a = ordinal b \<and> tod a < tod b))"

definition dt_ge :: "datetime \<Rightarrow> datetime \<Rightarrow> bool" where
  "dt_ge a b = (ordinal a > ordinal b \<or> (ordinal a = ordinal b \<and> tod a \<ge> tod b))"

text \<open>
  The calendar arithmetic of the standard library, used below to write concrete dates:
  the ordinal of year/month/day, and a time of day from hours, minutes and seconds.
\<close>

definition is_leap :: "int \<Rightarrow> bool" where
  "is_leap y = (y mod 4 = 0 \<and> (y mod 100 \<noteq> 0 \<or> y mod 400 = 0))"

definition days_before_year :: "int \<Rightarrow> int" where
  "days_before_year y = (y - 1) * 365 + (y - 1) div 4 - (y - 1) div 100 + (y - 1) div 400"

definition days_before_month :: "int \<Rightarrow> int \<Rightarrow> int" where
  "days_before_month y m =
     [0, 0, 31, 59, 90, 120, 151, 181, 212, 243, 273, 304, 334] ! nat m
       + (if m > 2 \<and> is_leap y then 1 else 0)"

definition ymd2ord :: "int \<Rightarrow> int \<Rightarrow> int \<Rightarrow> int" where
  "ymd2ord y m d = days_before_year y + days_before_month y m + d"

definition hms :: "int \<Rightarrow> int \<Rightarrow> int \<Rightarrow> int" where
  "hms h m s = ((h * 60 + m) * 60 + s) * 1000000"

definition mk_datetime :: "int \<Rightarrow> int \<Rightarrow> int \<Rightarrow> int \<Rightarrow> int \<Rightarrow> int \<Rightarrow> datetime" where
  "mk_datetime y mo d h mi s = \<lparr>ordinal = ymd2ord y mo d, tod = hms h mi s\<rparr>"

text \<open>
  Python's dates end at 9999-12-31, ordinal 3652059. \<^verbatim>\<open>dt + timedelta(days=1)\<close> keeps
  the time of day and raises \<^verbatim>\<open>OverflowError\<close> past that day.
\<close>

datatype py_exception =
    Exception string
  | ValueError string
  | OverflowError string
  | HTTPError string
  | ConnectionError string

definition MAXORDINAL :: int where
  "MAXORDINAL = 3652059"

definition add_one_day :: "datetime \<Rightarrow> py_exception + datetime" where
  "add_one_day dt =
     (if ordinal dt + 1 > MAXORDINAL then Inl (OverflowError ''date value out of range'')
      else Inr (dt\<lparr>ordinal := ordinal dt + 1\<rparr>))"

section \<open>The date helpers of app.py\<close>

text \<open>
  \<^verbatim>\<open>calculate_working_days\<close> (lines 16-30): the loop steps a datetime forward one day
  at a time while it is before the end, and counts the steps that stand on Monday to
  Friday.
\<close>

function working_days_loop :: "datetime \<Rightarrow> datetime \<Rightarrow> int \<Rightarrow> py_exception + int" where
  "working_days_loop current_date end_date working_days =
     (if dt_less current_date end_date then
        (let working_days' = (if weekday current_date < 5 then working_days + 1 else working_days)
         in case add_one_day current_date of
              Inl e \<Rightarrow> Inl e
            | Inr current_date' \<Rightarrow> working_days_loop current_date' end_date working_days')
      else Inr working_days)"
  by pat_completeness auto
termination
  by (relation "measure (\<lambda>(c, e, w). nat (ordinal e + 1 - ordinal c))")
     (auto simp: dt_less_def add_one_day_def split: if_splits)

declare working_days_loop.simps [simp del]

definition calculate_working_days :: "datetime \<Rightarrow> datetime \<Rightarrow> py_exception + int" where
  "calculate_working_days start_date end_date =
     (if dt_ge start_date end_date then Inr 0
      else working_days_loop start_date end_date 0)"

text \<open>\<^verbatim>\<open>calculate_calendar_days\<close> (lines 32-39).\<close>

definition calculate_calendar_days :: "datetime \<Rightarrow> datetime \<Rightarrow> int" where
  "calculate_calendar_days start_date end_date =
     (if dt_ge start_date end_date then 0
      else (let start_date_only = date_of start_date;
                end_date_only = date_of end_date
            in end_date_only - start_date_only))"

text \<open>\<^verbatim>\<open>is_today\<close> (lines 41-43) and \<^verbatim>\<open>is_weekend\<close> (lines 45-47).\<close>

definition is_today :: "datetime \<Rightarrow> datetime \<Rightarrow> bool" where
  "is_today date_to_check current_date = (date_of date_to_check = date_of current_date)"

definition is_weekend :: "datetime \<Rightarrow> bool" where
  "is_weekend date_to_check = (weekday date_to_check \<ge> 5)"

section \<open>Records of the backend\<close>

text \<open>
  The JSON records the backend returns, with the fields the program reads. Field \<^verbatim>\<open>k\<close>
  of a task is \<open>t_k\<close>, of a project \<open>p_k\<close>, of a user or a stage \<open>n_k\<close>. A many-to-one
  field is \<^verbatim>\<open>[id, name]\<close> or \<^verbatim>\<open>False\<close>: an optional pair. \<^verbatim>\<open>date_deadline\<close> is a string or
  \<^verbatim>\<open>False\<close>; \<^verbatim>\<open>state\<close> and \<^verbatim>\<open>is_closed\<close> are read with \<^verbatim>\<open>.get\<close> and may be absent.
\<close>

record task =
  t_id :: int
  t_name :: string
  t_project_id :: "(int \<times> string) option"
  t_stage_id :: "(int \<times> string) option"
  t_date_deadline :: "string option"
  t_user_ids :: "int list"
  t_state :: "string option"
  t_is_closed :: "bool option"

record project =
  p_id :: int
  p_name :: string
  p_user_id :: "(int \<times> string) option"
  p_stage_id :: "(int \<times> string) option"

record named =
  n_id :: int
  n_name :: string

section \<open>The RPC client\<close>

text \<open>
  \<^verbatim>\<open>json_rpc\<close> (lines 70-97) posts one request and unwraps the answer. What the remote
  end does with a request is an input of the model: the post itself fails, the status
  is not 2xx, the body is not JSON, the body holds an \<^verbatim>\<open>error\<close> object, or it holds a
  \<^verbatim>\<open>result\<close>. The messages printed on the way are not modelled.
\<close>

datatype 'a http_outcome =
    PostFailed string
  | BadStatus string
  | BadBody string
  | ErrorReply
  | ResultReply 'a

definition json_rpc :: "'a http_outcome \<Rightarrow> py_exception + 'a" where
  "json_rpc response =
     (case response of
        PostFailed msg \<Rightarrow> Inl (ConnectionError msg)
      | BadStatus msg \<Rightarrow> Inl (HTTPError msg)
      | BadBody msg \<Rightarrow> Inl (ValueError msg)
      | ErrorReply \<Rightarrow> Inl (Exception ''JSON-RPC call failed.'')
      | ResultReply r \<Rightarrow> Inr r)"

text \<open>\<^verbatim>\<open>str(e)\<close> of an exception raised with one message argument.\<close>

fun str_exception :: "py_exception \<Rightarrow> string" where
  "str_exception (Exception msg) = msg"
| "str_exception (ValueError msg) = msg"
| "str_exception (OverflowError msg) = msg"
| "str_exception (HTTPError msg) = msg"
| "str_exception (ConnectionError msg) = msg"

text \<open>
  The requests the pipeline sends, as they are logged by the model: the authentication,
  the \<^verbatim>\<open>search_read\<close> of the tasks, and a \<^verbatim>\<open>read\<close> of a model with a list of ids. The
  second and third carry the session id.
\<close>

datatype rpc_request =
    AuthenticateRequest
  | SearchReadTasks int
  | ReadRequest int string "int list"

text \<open>
  The remote backend: its answer to each request. The answer to \<^verbatim>\<open>authenticate\<close> is a
  user id or \<^verbatim>\<open>False\<close>.
\<close>

record backend =
  authenticate_reply :: "int option http_outcome"
  search_read_tasks_reply :: "int \<Rightarrow> task list http_outcome"
  read_projects_reply :: "int \<Rightarrow> int list \<Rightarrow> project list http_outcome"
  read_users_reply :: "int \<Rightarrow> int list \<Rightarrow> named list http_outcome"
  read_task_stages_reply :: "int \<Rightarrow> int list \<Rightarrow> named list http_outcome"
  read_project_stages_reply :: "int \<Rightarrow> int list \<Rightarrow> named list http_outcome"

text \<open>A call appends its request to the log of requests sent and unwraps the answer.\<close>

definition rpc_call ::
  "rpc_request list \<Rightarrow> rpc_request \<Rightarrow> 'a http_outcome \<Rightarrow> rpc_request list \<times> (py_exception + 'a)" where
  "rpc_call sent req response = (sent @ [req], json_rpc response)"

section \<open>Authentication and data fetch\<close>

text \<open>
  A Python set of ids is modelled as a list without duplicates, in insertion order.
  \<^verbatim>\<open>list(s)\<close> is then the list itself; Python leaves the order of \<^verbatim>\<open>list(s)\<close> open, and
  nothing below depends on it.
\<close>

definition set_add :: "int \<Rightarrow> int list \<Rightarrow> int list" where
  "set_add x s = (if x \<in> set s then s else s @ [x])"

definition set_update :: "int list \<Rightarrow> int list \<Rightarrow> int list" where
  "set_update xs s = fold set_add xs s"

text \<open>Step 1 (lines 102-114): authenticate; a falsy user id is a failure.\<close>

definition authenticate :: "backend \<Rightarrow> rpc_request list \<times> (py_exception + int)" where
  "authenticate be =
     (case rpc_call [] AuthenticateRequest (authenticate_reply be) of
        (sent, Inl e) \<Rightarrow> (sent, Inl e)
      | (sent, Inr uid) \<Rightarrow>
          (case uid of
             None \<Rightarrow> (sent, Inl (Exception ''Failed to authenticate''))
           | Some u \<Rightarrow>
               if u = 0 then (sent, Inl (Exception ''Failed to authenticate''))
               else (sent, Inr u)))"

text \<open>Step 3 (lines 139-150): the ids the tasks refer to.\<close>

fun collect_ids ::
  "task list \<Rightarrow> int list \<times> int list \<times> int list \<Rightarrow> int list \<times> int list \<times> int list" where
  "collect_ids [] acc = acc"
| "collect_ids (task # rest) (project_ids, user_ids, task_stage_ids) =
     collect_ids rest
       ((case t_project_id task of Some (i, _) \<Rightarrow> set_add i project_ids | None \<Rightarrow> project_ids),
        (if t_user_ids task \<noteq> [] then set_update (t_user_ids task) user_ids else user_ids),
        (case t_stage_id task of Some (i, _) \<Rightarrow> set_add i task_stage_ids | None \<Rightarrow> task_stage_ids))"

text \<open>Step 6b (lines 209-213): the project stages the projects refer to.\<close>

fun collect_project_stage_ids :: "project list \<Rightarrow> int list \<Rightarrow> int list" where
  "collect_project_stage_ids [] project_stage_ids = project_stage_ids"
| "collect_project_stage_ids (proj # rest) project_stage_ids =
     collect_project_stage_ids rest
       (case p_stage_id proj of Some (i, _) \<Rightarrow> set_add i project_stage_ids
                              | None \<Rightarrow> project_stage_ids)"

record fetched =
  f_tasks :: "task list"
  f_projects :: "project list"
  f_users :: "named list"
  f_task_stages :: "named list"
  f_project_stages :: "named list"

text \<open>
  Steps 2 to 6b (lines 116-233), in the order of the source. An exception of a call
  ends the fetch. Only the read of the project stages stands under a test of its id
  set (line 216).
\<close>

definition fetch :: "backend \<Rightarrow> int \<Rightarrow> rpc_request list \<Rightarrow> rpc_request list \<times> (py_exception + fetched)" where
  "fetch be uid log0 =
     (case rpc_call log0 (SearchReadTasks uid) (search_read_tasks_reply be uid) of
        (log1, Inl e) \<Rightarrow> (log1, Inl e)
      | (log1, Inr tasks) \<Rightarrow>
     (case collect_ids tasks ([], [], []) of (project_ids, user_ids, task_stage_ids) \<Rightarrow>
     (case rpc_call log1 (ReadRequest uid ''project.project'' project_ids)
             (read_projects_reply be uid project_ids) of
        (log2, Inl e) \<Rightarrow> (log2, Inl e)
      | (log2, Inr projects) \<Rightarrow>
     (case rpc_call log2 (ReadRequest uid ''res.users'' user_ids)
             (read_users_reply be uid user_ids) of
        (log3, Inl e) \<Rightarrow> (log3, Inl e)
      | (log3, Inr users) \<Rightarrow>
     (case rpc_call log3 (ReadRequest uid ''project.task.type'' task_stage_ids)
             (read_task_stages_reply be uid task_stage_ids) of
        (log4, Inl e) \<Rightarrow> (log4, Inl e)
      | (log4, Inr task_stages) \<Rightarrow>
     (let project_stage_ids = collect_project_stage_ids projects [] in
      case (if project_stage_ids \<noteq> []
            then rpc_call log4 (ReadRequest uid ''project.project.stage'' project_stage_ids)
                   (read_project_stages_reply be uid project_stage_ids)
            else (log4, Inr [])) of
        (log5, Inl e) \<Rightarrow> (log5, Inl e)
      | (log5, Inr project_stages) \<Rightarrow>
          (log5, Inr \<lparr>f_tasks = tasks, f_projects = projects, f_users = users,
                        f_task_stages = task_stages, f_project_stages = project_stages\<rparr>)))))))"

section \<open>Enrichment and statistics\<close>

text \<open>
  A dictionary built by a comprehension: later entries overwrite earlier ones with the
  same key. \<^verbatim>\<open>d.get(k, default)\<close> is \<open>dict_get m k default\<close>; the key may be \<^verbatim>\<open>None\<close>, which is never a
  key of a dictionary keyed by ids.
\<close>

definition dict_of :: "('k \<times> 'v) list \<Rightarrow> ('k \<rightharpoonup> 'v)" where
  "dict_of kvs = fold (\<lambda>(k, v) m. m(k \<mapsto> v)) kvs Map.empty"

definition dict_get :: "('k \<rightharpoonup> 'v) \<Rightarrow> 'k option \<Rightarrow> 'v \<Rightarrow> 'v" where
  "dict_get m key dflt =
     (case key of
        None \<Rightarrow> dflt
      | Some k \<Rightarrow> (case m k of None \<Rightarrow> dflt | Some v \<Rightarrow> v))"

text \<open>Step 7 (lines 235-265): the lookup tables.\<close>

record lookups =
  project_managers :: "int \<rightharpoonup> string"
  project_names :: "int \<rightharpoonup> string"
  user_names :: "int \<rightharpoonup> string"
  task_stage_names :: "int \<rightharpoonup> string"
  project_stage_names :: "int \<rightharpoonup> string"
  project_stage_mapping :: "int \<rightharpoonup> int option"

definition build_lookups :: "project list \<Rightarrow> named list \<Rightarrow> named list \<Rightarrow> named list \<Rightarrow> lookups" where
  "build_lookups projects users task_stages project_stages =
     \<lparr>project_managers =
        dict_of (map (\<lambda>proj. (p_id proj,
                       (case p_user_id proj of Some (_, n) \<Rightarrow> n | None \<Rightarrow> ''No Manager'')))
                   projects),
      project_names = dict_of (map (\<lambda>proj. (p_id proj, p_name proj)) projects),
      user_names = dict_of (map (\<lambda>user. (n_id user, n_name user)) users),
      task_stage_names = dict_of (map (\<lambda>stage. (n_id stage, n_name stage)) task_stages),
      project_stage_names = dict_of (map (\<lambda>stage. (n_id stage, n_name stage)) project_stages),
      project_stage_mapping =
        dict_of (map (\<lambda>proj. (p_id proj,
                       (case p_stage_id proj of Some (i, _) \<Rightarrow> Some i | None \<Rightarrow> None)))
                   projects)\<rparr>"

text \<open>\<^verbatim>\<open>str\<close> of an integer, for the f-string \<^verbatim>\<open>f"User {uid}"\<close>.\<close>

fun str_nat :: "nat \<Rightarrow> string" where
  "str_nat n =
     (if n < 10 then [''0123456789'' ! n]
      else str_nat (n div 10) @ [''0123456789'' ! (n mod 10)])"

definition str_int :: "int \<Rightarrow> string" where
  "str_int i = (if i < 0 then ''-'' @ str_nat (nat (- i)) else str_nat (nat i))"

text \<open>The label table of lines 294-301.\<close>

definition task_state_labels :: "(string \<times> string) list" where
  "task_state_labels =
     [(''01_in_progress'', ''In Progress''),
      (''02_changes_requested'', ''Changes Requested''),
      (''03_approved'', ''Approved''),
      (''1_canceled'', ''Cancelled''),
      (''1_done'', ''Done''),
      (''04_waiting_normal'', ''Waiting'')]"

text \<open>
  The enriched task of lines 333-354: key \<^verbatim>\<open>k\<close> of the dictionary is field \<open>o_k\<close>.
\<close>

record processed_task =
  o_id :: int
  o_name :: string
  o_project_name :: string
  o_manager :: string
  o_stage_id :: "int option"
  o_stage_name :: string
  o_project_stage_id :: "int option"
  o_project_stage_name :: string
  o_deadline :: "string option"
  o_assignees :: "string list"
  o_is_done :: bool
  o_is_cancelled :: bool
  o_is_overdue :: bool
  o_days_overdue :: int
  o_calendar_days_to_deadline :: int
  o_working_days_to_deadline :: int
  o_is_deadline_today :: bool
  o_is_deadline_weekend :: bool
  o_task_state :: "string option"
  o_task_state_label :: string

text \<open>
  Line 304: the deadline is parsed when it is truthy (a non-empty string), after every
  \<^verbatim>\<open>Z\<close> is replaced by \<^verbatim>\<open>+00:00\<close>. \<^verbatim>\<open>datetime.fromisoformat\<close> belongs to the standard
  library and is a parameter of the model; it raises \<^verbatim>\<open>ValueError\<close> on a string it
  does not accept.
\<close>

definition replace_Z :: "string \<Rightarrow> string" where
  "replace_Z s = concat (map (\<lambda>c. if c = CHR ''Z'' then ''+00:00'' else [c]) s)"

definition parse_deadline ::
  "(string \<Rightarrow> py_exception + datetime) \<Rightarrow> string option \<Rightarrow> py_exception + datetime option" where
  "parse_deadline fromisoformat deadline =
     (case deadline of
        None \<Rightarrow> Inr None
      | Some s \<Rightarrow>
          if s = [] then Inr None
          else (case fromisoformat (replace_Z s) of
                  Inl e \<Rightarrow> Inl e
                | Inr dt \<Rightarrow> Inr (Some dt)))"

text \<open>
  Lines 305-323: the six scheduling fields, from their defaults. The result is
  (\<^verbatim>\<open>is_overdue\<close>, \<^verbatim>\<open>days_overdue\<close>, \<^verbatim>\<open>calendar_days_to_deadline\<close>,
  \<^verbatim>\<open>working_days_to_deadline\<close>, \<^verbatim>\<open>is_deadline_today\<close>, \<^verbatim>\<open>is_deadline_weekend\<close>).
\<close>

definition deadline_math ::
  "bool \<Rightarrow> bool \<Rightarrow> datetime option \<Rightarrow> datetime
     \<Rightarrow> py_exception + (bool \<times> int \<times> int \<times> int \<times> bool \<times> bool)" where
  "deadline_math is_done is_cancelled deadline_dt current_time =
     (case deadline_dt of
        None \<Rightarrow> Inr (False, 0, 0, 0, False, False)
      | Some dt \<Rightarrow>
          (let is_deadline_today = is_today dt current_time;
               is_deadline_weekend = is_weekend dt
           in if \<not> is_done \<and> \<not> is_cancelled then
                (if date_of dt < date_of current_time then
                   Inr (True, date_of current_time - date_of dt, 0, 0,
                        is_deadline_today, is_deadline_weekend)
                 else
                   (let calendar_days_to_deadline = calculate_calendar_days current_time dt
                    in case calculate_working_days current_time dt of
                         Inl e \<Rightarrow> Inl e
                       | Inr working_days_to_deadline \<Rightarrow>
                           Inr (False, 0, calendar_days_to_deadline, working_days_to_deadline,
                                is_deadline_today, is_deadline_weekend)))
              else Inr (False, 0, 0, 0, is_deadline_today, is_deadline_weekend)))"

text \<open>One pass of the loop body of step 8, lines 275-323 and 333-354.\<close>

definition process_task ::
  "lookups \<Rightarrow> (string \<Rightarrow> py_exception + datetime) \<Rightarrow> datetime \<Rightarrow> task
     \<Rightarrow> py_exception + processed_task" where
  "process_task lk fromisoformat current_time task =
     (let project_id = (case t_project_id task of Some (i, _) \<Rightarrow> Some i | None \<Rightarrow> None);
          project_name = dict_get (project_names lk) project_id ''No Project'';
          manager = dict_get (project_managers lk) project_id ''Unknown'';
          task_stage_id = (case t_stage_id task of Some (i, _) \<Rightarrow> Some i | None \<Rightarrow> None);
          task_stage_name = dict_get (task_stage_names lk) task_stage_id ''No Stage'';
          project_stage_id = dict_get (project_stage_mapping lk) project_id None;
          project_stage_name =
            dict_get (project_stage_names lk) project_stage_id ''No Project Stage'';
          deadline = t_date_deadline task;
          assignees =
            map (\<lambda>uid. dict_get (user_names lk) (Some uid) (''User '' @ str_int uid))
              (t_user_ids task);
          task_state = t_state task;
          is_done = (t_is_closed task = Some True);
          is_cancelled = (task_state = Some ''1_canceled'');
          task_state_label =
            (case task_state of
               None \<Rightarrow> ''Unknown''
             | Some st \<Rightarrow>
                 (case map_of task_state_labels st of None \<Rightarrow> ''Unknown'' | Some l \<Rightarrow> l))
      in case parse_deadline fromisoformat deadline of
           Inl e \<Rightarrow> Inl e
         | Inr deadline_dt \<Rightarrow>
             (case deadline_math is_done is_cancelled deadline_dt current_time of
                Inl e \<Rightarrow> Inl e
              | Inr (is_overdue, days_overdue, calendar_days_to_deadline,
                     working_days_to_deadline, is_deadline_today, is_deadline_weekend) \<Rightarrow>
                  Inr \<lparr>o_id = t_id task,
                       o_name = t_name task,
                       o_project_name = project_name,
                       o_manager = manager,
                       o_stage_id = task_stage_id,
                       o_stage_name = task_stage_name,
                       o_project_stage_id = project_stage_id,
                       o_project_stage_name = project_stage_name,
                       o_deadline = deadline,
                       o_assignees = assignees,
                       o_is_done = is_done,
                       o_is_cancelled = is_cancelled,
                       o_is_overdue = is_overdue,
                       o_days_overdue = days_overdue,
                       o_calendar_days_to_deadline = calendar_days_to_deadline,
                       o_working_days_to_deadline = working_days_to_deadline,
                       o_is_deadline_today = is_deadline_today,
                       o_is_deadline_weekend = is_deadline_weekend,
                       o_task_state = task_state,
                       o_task_state_label = task_state_label\<rparr>))"

text \<open>
  The state of the loop of step 8: the list of enriched tasks and the three counters
  (lines 268-271). Lines 326-331 count the task, line 355 appends it; the flags they
  read are the ones stored in the enriched task.
\<close>

record tally =
  processed_tasks :: "processed_task list"
  done_count :: int
  overdue_count :: int
  cancelled_count :: int

definition count_task :: "processed_task \<Rightarrow> tally \<Rightarrow> tally" where
  "count_task pt st =
     (let st' =
        (if o_is_done pt then st\<lparr>done_count := done_count st + 1\<rparr>
         else if o_is_cancelled pt then st\<lparr>cancelled_count := cancelled_count st + 1\<rparr>
         else if o_is_overdue pt then st\<lparr>overdue_count := overdue_count st + 1\<rparr>
         else st)
      in st'\<lparr>processed_tasks := processed_tasks st' @ [pt]\<rparr>)"

fun process_loop ::
  "lookups \<Rightarrow> (string \<Rightarrow> py_exception + datetime) \<Rightarrow> datetime \<Rightarrow> task list \<Rightarrow> tally
     \<Rightarrow> py_exception + tally" where
  "process_loop lk fromisoformat current_time [] st = Inr st"
| "process_loop lk fromisoformat current_time (task # rest) st =
     (case process_task lk fromisoformat current_time task of
        Inl e \<Rightarrow> Inl e
      | Inr pt \<Rightarrow> process_loop lk fromisoformat current_time rest (count_task pt st))"

text \<open>
  Step 9 (lines 357-379): the counts per project stage name. The chain of lines
  372-379 puts a task into one of four categories.
\<close>

datatype category = Done | Cancelled | Overdue | InProgress

definition classify :: "processed_task \<Rightarrow> category" where
  "classify pt =
     (if o_is_done pt then Done
      else if o_is_cancelled pt then Cancelled
      else if o_is_overdue pt then Overdue
      else InProgress)"

record stage_counts =
  c_total :: int
  c_done :: int
  c_overdue :: int
  c_in_progress :: int
  c_cancelled :: int

definition bump :: "category \<Rightarrow> stage_counts \<Rightarrow> stage_counts" where
  "bump cat c =
     (case cat of
        Done \<Rightarrow> c\<lparr>c_done := c_done c + 1\<rparr>
      | Cancelled \<Rightarrow> c\<lparr>c_cancelled := c_cancelled c + 1\<rparr>
      | Overdue \<Rightarrow> c\<lparr>c_overdue := c_overdue c + 1\<rparr>
      | InProgress \<Rightarrow> c\<lparr>c_in_progress := c_in_progress c + 1\<rparr>)"

definition stage_stats_step ::
  "processed_task \<Rightarrow> (string \<times> stage_counts) list \<Rightarrow> (string \<times> stage_counts) list" where
  "stage_stats_step pt stage_stats =
     (let project_stage_name = o_project_stage_name pt;
          current =
            (case map_of stage_stats project_stage_name of
               None \<Rightarrow> \<lparr>c_total = 0, c_done = 0, c_overdue = 0, c_in_progress = 0,
                         c_cancelled = 0\<rparr>
             | Some c \<Rightarrow> c)
      in AList.update project_stage_name
           (bump (classify pt) (current\<lparr>c_total := c_total current + 1\<rparr>)) stage_stats)"

text \<open>
  The counts of a stage are consistent when none is negative and the total is their sum.
\<close>

definition well_counted :: "stage_counts \<Rightarrow> bool" where
  "well_counted c =
     (0 \<le> c_done c \<and> 0 \<le> c_overdue c \<and> 0 \<le> c_in_progress c \<and> 0 \<le> c_cancelled c \<and>
      c_total c = c_done c + c_overdue c + c_in_progress c + c_cancelled c)"

text \<open>
  The percentages of lines 387-390 are Python floats, IEEE 754 binary64 numbers. A
  finite double is modelled by its exact value, a rational number. Each of the three
  operations of \<^verbatim>\<open>round((count / total) * 100, 1)\<close> is correctly rounded: the true division
  of two integers, the multiplication of two doubles, and \<^verbatim>\<open>round\<close> with a number of digits,
  which rounds the exact decimal expansion of the double to that many places, ties to
  the even digit, and reads the decimal back as the nearest double.

  \<open>round_half_even y\<close> is the integer nearest to \<open>y\<close>, the even one of the two when \<open>y\<close>
  lies half way. \<open>binary_exponent x\<close> is the \<open>e\<close> with \<open>2 ^ e \<le> x < 2 ^ (e + 1)\<close>, for a
  positive \<open>x\<close>. \<open>fl x\<close> is the double nearest to \<open>x\<close>, ties to the even significand: a
  multiple of the unit in the last place of \<open>x\<close>, 53 significant bits down to the
  subnormal spacing \<open>2 ^ -1074\<close>. Overflow to infinity is not modelled: the values the
  program rounds do not exceed 100 by more than a rounding error.
\<close>

definition round_half_even :: "rat \<Rightarrow> int" where
  "round_half_even y =
     (let f = \<lfloor>y\<rfloor>; r = y - of_int f
      in if r < 1 / 2 then f else if r > 1 / 2 then f + 1 else if even f then f else f + 1)"

definition binary_exponent :: "rat \<Rightarrow> int" where
  "binary_exponent x =
     (case quotient_of x of (p, q) \<Rightarrow>
        (let e0 = bitlen p - bitlen q in if 2 powi e0 \<le> x then e0 else e0 - 1))"

definition fl :: "rat \<Rightarrow> rat" where
  "fl x =
     (if x = 0 then 0
      else (let u = 2 powi (max (binary_exponent \<bar>x\<bar> - 52) (- 1074))
            in sgn x * of_int (round_half_even (\<bar>x\<bar> / u)) * u))"

text \<open>\<^verbatim>\<open>round(x, ndigits)\<close> of a float, for a number of digits that is not negative.\<close>

definition py_round :: "rat \<Rightarrow> nat \<Rightarrow> rat" where
  "py_round x ndigits = fl (of_int (round_half_even (x * 10 ^ ndigits)) / 10 ^ ndigits)"

text \<open>\<^verbatim>\<open>round((count / total) * 100, 1)\<close> for the integers \<open>cnt\<close> and \<open>tot\<close>, the latter not 0.\<close>

definition py_percentage :: "int \<Rightarrow> int \<Rightarrow> rat" where
  "py_percentage cnt tot = py_round (fl (fl (of_int cnt / of_int tot) * 100)) 1"

text \<open>
  Lines 381-395: the entry of a stage; a stage whose total is 0 gets none. Key \<^verbatim>\<open>k\<close> of
  the entry is field \<open>se_k\<close>.
\<close>

record stage_entry =
  se_total :: int
  se_done_percentage :: rat
  se_overdue_percentage :: rat
  se_in_progress_percentage :: rat
  se_cancelled_percentage :: rat
  se_done_count :: int
  se_overdue_count :: int
  se_in_progress_count :: int
  se_cancelled_count :: int

definition stage_percentages :: "(string \<times> stage_counts) list \<Rightarrow> (string \<times> stage_entry) list" where
  "stage_percentages stage_stats =
     map (\<lambda>(stage_name, stats).
            (stage_name,
             \<lparr>se_total = c_total stats,
              se_done_percentage = py_percentage (c_done stats) (c_total stats),
              se_overdue_percentage = py_percentage (c_overdue stats) (c_total stats),
              se_in_progress_percentage = py_percentage (c_in_progress stats) (c_total stats),
              se_cancelled_percentage = py_percentage (c_cancelled stats) (c_total stats),
              se_done_count = c_done stats,
              se_overdue_count = c_overdue stats,
              se_in_progress_count = c_in_progress stats,
              se_cancelled_count = c_cancelled stats\<rparr>))
       (filter (\<lambda>(stage_name, stats). c_total stats > 0) stage_stats)"

text \<open>The result of the pipeline (lines 397-407 and 411-422).\<close>

record statistics =
  s_total :: int
  s_done :: int
  s_cancelled :: int
  s_overdue :: int
  s_in_progress :: int

record result =
  r_tasks :: "processed_task list"
  r_statistics :: statistics
  r_stage_statistics :: "(string \<times> stage_entry) list"
  r_error :: "string option"

text \<open>Steps 7 to 9 and the return of lines 397-407.\<close>

definition process ::
  "fetched \<Rightarrow> (string \<Rightarrow> py_exception + datetime) \<Rightarrow> datetime \<Rightarrow> py_exception + result" where
  "process data fromisoformat current_time =
     (let lk = build_lookups (f_projects data) (f_users data) (f_task_stages data)
                 (f_project_stages data)
      in case process_loop lk fromisoformat current_time (f_tasks data)
                \<lparr>processed_tasks = [], done_count = 0, overdue_count = 0,
                 cancelled_count = 0\<rparr> of
           Inl e \<Rightarrow> Inl e
         | Inr st \<Rightarrow>
             (let stage_stats = fold stage_stats_step (processed_tasks st) []
              in Inr \<lparr>r_tasks = processed_tasks st,
                       r_statistics =
                         \<lparr>s_total = int (length (processed_tasks st)),
                          s_done = done_count st,
                          s_cancelled = cancelled_count st,
                          s_overdue = overdue_count st,
                          s_in_progress =
                            int (length (processed_tasks st)) - done_count st
                              - cancelled_count st - overdue_count st\<rparr>,
                       r_stage_statistics = stage_percentages stage_stats,
                       r_error = None\<rparr>))"

section \<open>The pipeline\<close>

text \<open>
  The body of the \<^verbatim>\<open>try\<close> of \<^verbatim>\<open>get_tasks_data\<close> (lines 102-407): authenticate, fetch,
  process. Its inputs are the backend, \<^verbatim>\<open>datetime.fromisoformat\<close> and the value of
  \<^verbatim>\<open>datetime.now()\<close>; it yields the log of the requests sent, and the result or the
  exception that ended it.
\<close>

definition pipeline ::
  "backend \<Rightarrow> (string \<Rightarrow> py_exception + datetime) \<Rightarrow> datetime
     \<Rightarrow> rpc_request list \<times> (py_exception + result)" where
  "pipeline be fromisoformat current_time =
     (case authenticate be of
        (sent, Inl e) \<Rightarrow> (sent, Inl e)
      | (sent, Inr uid) \<Rightarrow>
          (case fetch be uid sent of
             (sent', Inl e) \<Rightarrow> (sent', Inl e)
           | (sent', Inr data) \<Rightarrow> (sent', process data fromisoformat current_time)))"

text \<open>The \<^verbatim>\<open>except Exception\<close> handler of lines 409-422.\<close>

definition error_result :: "py_exception \<Rightarrow> result" where
  "error_result e =
     \<lparr>r_tasks = [],
      r_statistics = \<lparr>s_total = 0, s_done = 0, s_cancelled = 0, s_overdue = 0,
                        s_in_progress = 0\<rparr>,
      r_stage_statistics = [],
      r_error = Some (str_exception e)\<rparr>"

definition get_tasks_data ::
  "backend \<Rightarrow> (string \<Rightarrow> py_exception + datetime) \<Rightarrow> datetime \<Rightarrow> result" where
  "get_tasks_data be fromisoformat current_time =
     (case snd (pipeline be fromisoformat current_time) of
        Inl e \<Rightarrow> error_result e
      | Inr r \<Rightarrow> r)"

section \<open>The specification's reading of the working days\<close>

text \<open>
  The specification counts the weekdays (Monday to Friday) among the dates of the
  half-open range from the date of the start to the date of the end, and 0 when the
  start is not before the end. \<open>weekdays_in_dates d1 d2\<close> counts the weekdays among the
  dates \<open>d1, ..., d2 - 1\<close>.
\<close>

definition weekdays_in_dates :: "int \<Rightarrow> int \<Rightarrow> int" where
  "weekdays_in_dates d1 d2 = int (length (filter (\<lambda>d. (d + 6) mod 7 < 5) [d1..d2 - 1]))"

definition spec_working_days :: "datetime \<Rightarrow> datetime \<Rightarrow> int" where
  "spec_working_days a b =
     (if dt_ge a b then 0 else weekdays_in_dates (date_of a) (date_of b))"

text \<open>
  The first date the loop of \<open>working_days_loop\<close> does not visit: the date of the end,
  or the day after it when the time of day of the start is earlier than that of the end.
\<close>

definition loop_end :: "datetime \<Rightarrow> datetime \<Rightarrow> int" where
  "loop_end a b = (if tod a < tod b then ordinal b + 1 else ordinal b)"

section \<open>Sample inputs\<close>

text \<open>
  A small backend, used to run the pipeline on concrete data: one project without a
  manager, two users, one task stage, one project stage, and four tasks (one overdue,
  one done, one cancelled on a project the backend does not return, one in progress
  with an assignee the backend does not return). The current time is Monday
  2024-06-10 10:00.
\<close>

definition sample_now :: datetime where
  "sample_now = mk_datetime 2024 6 10 10 0 0"

definition sample_fromisoformat :: "string \<Rightarrow> py_exception + datetime" where
  "sample_fromisoformat s =
     (if s = ''2024-06-08 09:00:00'' then Inr (mk_datetime 2024 6 8 9 0 0)
      else if s = ''2024-06-14 12:00:00'' then Inr (mk_datetime 2024 6 14 12 0 0)
      else Inl (ValueError (''Invalid isoformat string: '' @ s)))"

definition sample_tasks :: "task list" where
  "sample_tasks =
     [\<lparr>t_id = 1, t_name = ''Write report'', t_project_id = Some (10, ''Alpha''),
       t_stage_id = Some (5, ''Doing''), t_date_deadline = Some ''2024-06-08 09:00:00'',
       t_user_ids = [7, 8], t_state = Some ''01_in_progress'', t_is_closed = Some False\<rparr>,
      \<lparr>t_id = 2, t_name = ''Ship release'', t_project_id = Some (10, ''Alpha''),
       t_stage_id = None, t_date_deadline = Some ''2024-06-08 09:00:00'',
       t_user_ids = [], t_state = Some ''1_done'', t_is_closed = Some True\<rparr>,
      \<lparr>t_id = 3, t_name = ''Old idea'', t_project_id = Some (11, ''Beta''),
       t_stage_id = Some (5, ''Doing''), t_date_deadline = Some ''2024-06-08 09:00:00'',
       t_user_ids = [7], t_state = Some ''1_canceled'', t_is_closed = Some False\<rparr>,
      \<lparr>t_id = 4, t_name = ''Review'', t_project_id = Some (10, ''Alpha''),
       t_stage_id = Some (5, ''Doing''), t_date_deadline = Some ''2024-06-14 12:00:00'',
       t_user_ids = [9], t_state = Some ''02_changes_requested'', t_is_closed = Some False\<rparr>]"

definition sample_projects :: "project list" where
  "sample_projects =
     [\<lparr>p_id = 10, p_name = ''Alpha'', p_user_id = None, p_stage_id = Some (3, ''Build'')\<rparr>]"

definition sample_users :: "named list" where
  "sample_users = [\<lparr>n_id = 7, n_name = ''Ana''\<rparr>, \<lparr>n_id = 8, n_name = ''Bo''\<rparr>]"

definition sample_task_stages :: "named list" where
  "sample_task_stages = [\<lparr>n_id = 5, n_name = ''Doing''\<rparr>]"

definition sample_project_stages :: "named list" where
  "sample_project_stages = [\<lparr>n_id = 3, n_name = ''Build''\<rparr>]"

definition sample_backend :: backend where
  "sample_backend =
     \<lparr>authenticate_reply = ResultReply (Some 2),
      search_read_tasks_reply = (\<lambda>uid. ResultReply sample_tasks),
      read_projects_reply = (\<lambda>uid ids. ResultReply (filter (\<lambda>p. p_id p \<in> set ids) sample_projects)),
      read_users_reply = (\<lambda>uid ids. ResultReply (filter (\<lambda>u. n_id u \<in> set ids) sample_users)),
      read_task_stages_reply =
        (\<lambda>uid ids. ResultReply (filter (\<lambda>s. n_id s \<in> set ids) sample_task_stages)),
      read_project_stages_reply =
        (\<lambda>uid ids. ResultReply (filter (\<lambda>s. n_id s \<in> set ids) sample_project_stages))\<rparr>"

definition sample_data :: fetched where
  "sample_data =
     \<lparr>f_tasks = sample_tasks, f_projects = sample_projects, f_users = sample_users,
      f_task_stages = sample_task_stages, f_project_stages = sample_project_stages\<rparr>"

text \<open>The same backend with no task that has a deadline and a project.\<close>

definition idle_backend :: backend where
  "idle_backend = sample_backend\<lparr>search_read_tasks_reply := (\<lambda>uid. ResultReply [])\<rparr>"

text \<open>A backend that rejects the credentials, and one whose only task has a deadline
  that \<^verbatim>\<open>fromisoformat\<close> does not accept.\<close>

definition rejecting_backend :: backend where
  "rejecting_backend = sample_backend\<lparr>authenticate_reply := ResultReply None\<rparr>"

text \<open>A backend that answers the task query with a server error.\<close>

definition failing_backend :: backend where
  "failing_backend =
     sample_backend\<lparr>search_read_tasks_reply := (\<lambda>uid. BadStatus ''500 Server Error'')\<rparr>"

definition bad_deadline_task :: task where
  "bad_deadline_task =
     \<lparr>t_id = 5, t_name = ''Plan'', t_project_id = Some (10, ''Alpha''), t_stage_id = None,
      t_date_deadline = Some ''next week'', t_user_ids = [], t_state = None,
      t_is_closed = None\<rparr>"

definition bad_deadline_backend :: backend where
  "bad_deadline_backend =
     sample_backend\<lparr>search_read_tasks_reply := (\<lambda>uid. ResultReply [bad_deadline_task])\<rparr>"

text \<open>The number of tasks of a list that the chain of lines 372-379 puts into a category.\<close>

definition count_in :: "category \<Rightarrow> processed_task list \<Rightarrow> int" where
  "count_in cat pts = int (length (filter (\<lambda>pt. classify pt = cat) pts))"

text \<open>
  The result expected of the pipeline on the sample backend: the overdue task is two
  days late; the done and the cancelled task keep the defaults although their deadline
  has passed; the task in progress has four calendar days to its deadline.
\<close>

definition sample_processed :: "processed_task list" where
  "sample_processed =
     [\<lparr>o_id = 1, o_name = ''Write report'', o_project_name = ''Alpha'',
       o_manager = ''No Manager'', o_stage_id = Some 5, o_stage_name = ''Doing'',
       o_project_stage_id = Some 3, o_project_stage_name = ''Build'',
       o_deadline = Some ''2024-06-08 09:00:00'', o_assignees = [''Ana'', ''Bo''],
       o_is_done = False, o_is_cancelled = False, o_is_overdue = True, o_days_overdue = 2,
       o_calendar_days_to_deadline = 0, o_working_days_to_deadline = 0,
       o_is_deadline_today = False, o_is_deadline_weekend = True,
       o_task_state = Some ''01_in_progress'', o_task_state_label = ''In Progress''\<rparr>,
      \<lparr>o_id = 2, o_name = ''Ship release'', o_project_name = ''Alpha'',
       o_manager = ''No Manager'', o_stage_id = None, o_stage_name = ''No Stage'',
       o_project_stage_id = Some 3, o_project_stage_name = ''Build'',
       o_deadline = Some ''2024-06-08 09:00:00'', o_assignees = [],
       o_is_done = True, o_is_cancelled = False, o_is_overdue = False, o_days_overdue = 0,
       o_calendar_days_to_deadline = 0, o_working_days_to_deadline = 0,
       o_is_deadline_today = False, o_is_deadline_weekend = True,
       o_task_state = Some ''1_done'', o_task_state_label = ''Done''\<rparr>,
      \<lparr>o_id = 3, o_name = ''Old idea'', o_project_name = ''No Project'',
       o_manager = ''Unknown'', o_stage_id = Some 5, o_stage_name = ''Doing'',
       o_project_stage_id = None, o_project_stage_name = ''No Project Stage'',
       o_deadline = Some ''2024-06-08 09:00:00'', o_assignees = [''Ana''],
       o_is_done = False, o_is_cancelled = True, o_is_overdue = False, o_days_overdue = 0,
       o_calendar_days_to_deadline = 0, o_working_days_to_deadline = 0,
       o_is_deadline_today = False, o_is_deadline_weekend = True,
       o_task_state = Some ''1_canceled'', o_task_state_label = ''Cancelled''\<rparr>,
      \<lparr>o_id = 4, o_name = ''Review'', o_project_name = ''Alpha'',
       o_manager = ''No Manager'', o_stage_id = Some 5, o_stage_name = ''Doing'',
       o_project_stage_id = Some 3, o_project_stage_name = ''Build'',
       o_deadline = Some ''2024-06-14 12:00:00'', o_assignees = [''User 9''],
       o_is_done = False, o_is_cancelled = False, o_is_overdue = False, o_days_overdue = 0,
       o_calendar_days_to_deadline = 4, o_working_days_to_deadline = 5,
       o_is_deadline_today = False, o_is_deadline_weekend = False,
       o_task_state = Some ''02_changes_requested'',
       o_task_state_label = ''Changes Requested''\<rparr>]"

definition sample_stage_stats :: "(string \<times> stage_counts) list" where
  "sample_stage_stats =
     [(''Build'', \<lparr>c_total = 3, c_done = 1, c_overdue = 1, c_in_progress = 1,
                    c_cancelled = 0\<rparr>),
      (''No Project Stage'', \<lparr>c_total = 1, c_done = 0, c_overdue = 0, c_in_progress = 0,
                               c_cancelled = 1\<rparr>)]"

definition sample_result :: result where
  "sample_result =
     \<lparr>r_tasks = sample_processed,
      r_statistics = \<lparr>s_total = 4, s_done = 1, s_cancelled = 1, s_overdue = 1,
                        s_in_progress = 1\<rparr>,
      r_stage_statistics = stage_percentages sample_stage_stats,
      r_error = None\<rparr>"

definition bad_deadline_data :: fetched where
  "bad_deadline_data =
     \<lparr>f_tasks = [bad_deadline_task], f_projects = sample_projects, f_users = [],
      f_task_stages = [], f_project_stages = sample_project_stages\<rparr>"

section \<open>Calendar days and working days\<close>

lemma ymd2ord_example: "ymd2ord 2024 6 10 = 739047"
  by (simp add: ymd2ord_def days_before_year_def days_before_month_def is_leap_def)

lemma dt_ge_iff_not_less: "dt_ge a b = (\<not> dt_less a b)"
  by (auto simp: dt_ge_def dt_less_def)

text \<open>
  C5: \<open>calculate_calendar_days a b\<close> is 0 when \<open>a \<ge> b\<close>, and otherwise the number of days
  from the date of \<open>a\<close> to the date of \<open>b\<close>, whatever the times of day.
\<close>

theorem calculate_calendar_days_spec:
  "(dt_ge a b \<longrightarrow> calculate_calendar_days a b = 0) \<and>
   (\<not> dt_ge a b \<longrightarrow> calculate_calendar_days a b = date_of b - date_of a)"
  by (simp add: calculate_calendar_days_def)

theorem calculate_calendar_days_spec_witness:
  "dt_ge (mk_datetime 2024 6 14 12 0 0) (mk_datetime 2024 6 10 10 0 0) \<and>
   calculate_calendar_days (mk_datetime 2024 6 14 12 0 0) (mk_datetime 2024 6 10 10 0 0) = 0 \<and>
   \<not> dt_ge (mk_datetime 2024 6 10 10 0 0) (mk_datetime 2024 6 14 9 0 0) \<and>
   calculate_calendar_days (mk_datetime 2024 6 10 10 0 0) (mk_datetime 2024 6 14 9 0 0) = 4"
proof -
  have ge: "dt_ge (mk_datetime 2024 6 14 12 0 0) (mk_datetime 2024 6 10 10 0 0)"
    by code_simp
  have lt: "\<not> dt_ge (mk_datetime 2024 6 10 10 0 0) (mk_datetime 2024 6 14 9 0 0)"
    by code_simp
  have d: "date_of (mk_datetime 2024 6 14 9 0 0) - date_of (mk_datetime 2024 6 10 10 0 0) = 4"
    by code_simp
  from ge lt d
    calculate_calendar_days_spec [of "mk_datetime 2024 6 14 12 0 0" "mk_datetime 2024 6 10 10 0 0"]
    calculate_calendar_days_spec [of "mk_datetime 2024 6 10 10 0 0" "mk_datetime 2024 6 14 9 0 0"]
  show ?thesis by simp
qed

text \<open>
  The loop of \<open>calculate_working_days\<close> compares datetimes, not dates: it visits the
  dates from the date of the start up to, and not including, \<open>loop_end\<close>.
\<close>

lemma weekdays_in_dates_empty: "d2 \<le> d1 \<Longrightarrow> weekdays_in_dates d1 d2 = 0"
  by (simp add: weekdays_in_dates_def)

lemma weekdays_in_dates_step:
  "d1 < d2 \<Longrightarrow>
   weekdays_in_dates d1 d2 = (if (d1 + 6) mod 7 < 5 then 1 else 0) + weekdays_in_dates (d1 + 1) d2"
  by (simp add: weekdays_in_dates_def upto_rec1[of d1 "d2 - 1"])

lemma dt_less_loop_end: "dt_less c e = (ordinal c < loop_end c e)"
  by (auto simp: dt_less_def loop_end_def)

lemma working_days_loop_eq:
  "working_days_loop c e w =
     (if loop_end c e \<le> ordinal c then Inr w
      else if loop_end c e \<le> MAXORDINAL
           then Inr (w + weekdays_in_dates (ordinal c) (loop_end c e))
      else Inl (OverflowError ''date value out of range''))"
proof (induction c e w rule: working_days_loop.induct)
  case (1 c e w)
  show ?case
  proof (cases "dt_less c e")
    case False
    then have "working_days_loop c e w = Inr w"
      by (subst working_days_loop.simps) simp
    with False show ?thesis by (simp add: dt_less_loop_end)
  next
    case True
    then have lt: "ordinal c < loop_end c e" by (simp add: dt_less_loop_end)
    show ?thesis
    proof (cases "ordinal c + 1 > MAXORDINAL")
      case True
      then have "working_days_loop c e w = Inl (OverflowError ''date value out of range'')"
        using \<open>dt_less c e\<close> by (subst working_days_loop.simps) (simp add: add_one_day_def Let_def)
      with lt True show ?thesis by simp
    next
      case False
      let ?c' = "c\<lparr>ordinal := ordinal c + 1\<rparr>"
      let ?w' = "if weekday c < 5 then w + 1 else w"
      have a: "add_one_day c = Inr ?c'" using False by (simp add: add_one_day_def)
      have le: "loop_end ?c' e = loop_end c e" by (simp add: loop_end_def)
      have step: "working_days_loop c e w = working_days_loop ?c' e ?w'"
        using \<open>dt_less c e\<close> by (subst working_days_loop.simps) (simp add: a Let_def)
      have ih: "working_days_loop ?c' e ?w' =
           (if loop_end c e \<le> ordinal c + 1 then Inr ?w'
            else if loop_end c e \<le> MAXORDINAL
                 then Inr (?w' + weekdays_in_dates (ordinal c + 1) (loop_end c e))
            else Inl (OverflowError ''date value out of range''))"
        using "1.IH"[OF \<open>dt_less c e\<close> refl a] by (simp add: le)
      have wd: "weekdays_in_dates (ordinal c) (loop_end c e) =
          (if weekday c < 5 then 1 else 0) + weekdays_in_dates (ordinal c + 1) (loop_end c e)"
        using weekdays_in_dates_step[OF lt] by (simp add: weekday_def)
      show ?thesis
      proof (cases "loop_end c e \<le> ordinal c + 1")
        case True
        then have "weekdays_in_dates (ordinal c + 1) (loop_end c e) = 0"
          by (rule weekdays_in_dates_empty)
        with True lt False show ?thesis by (simp add: step ih wd)
      next
        case False
        with lt show ?thesis by (simp add: step ih wd)
      qed
    qed
  qed
qed

lemma calculate_working_days_eq:
  "calculate_working_days a b =
     (if dt_ge a b then Inr 0
      else if loop_end a b \<le> MAXORDINAL
           then Inr (weekdays_in_dates (ordinal a) (loop_end a b))
      else Inl (OverflowError ''date value out of range''))"
  by (auto simp: calculate_working_days_def working_days_loop_eq dt_ge_def loop_end_def)

text \<open>
  When the time of day of the start is not earlier than that of the end (as it is for
  two dates at midnight), the loop counts the half-open range of dates of the
  specification.
\<close>

lemma calculate_working_days_on_dates:
  "tod b \<le> tod a \<Longrightarrow> ordinal b \<le> MAXORDINAL \<Longrightarrow>
   calculate_working_days a b = Inr (spec_working_days a b)"
  by (simp add: calculate_working_days_eq spec_working_days_def loop_end_def date_of_def)

text \<open>
  When the time of day of the start is earlier than that of the end, the loop also
  visits the date of the end.
\<close>

lemma calculate_working_days_later_time:
  "tod a < tod b \<Longrightarrow> ordinal a \<le> ordinal b \<Longrightarrow> ordinal b < MAXORDINAL \<Longrightarrow>
   calculate_working_days a b = Inr (weekdays_in_dates (date_of a) (date_of b + 1))"
  by (simp add: calculate_working_days_eq loop_end_def date_of_def dt_ge_def)

text \<open>
  C2: \<open>calculate_working_days a b\<close> should count the weekdays of the dates from the date
  of \<open>a\<close> up to, and not including, the date of \<open>b\<close>. From Monday 2024-06-10 10:00 to
  Friday 2024-06-14 12:00 that range holds four weekdays and four calendar days; the
  loop returns five, because it also counts the Friday.
\<close>

theorem calculate_working_days_counts_end_date:
  "calculate_working_days (mk_datetime 2024 6 10 10 0 0) (mk_datetime 2024 6 14 12 0 0) = Inr 5 \<and>
   spec_working_days (mk_datetime 2024 6 10 10 0 0) (mk_datetime 2024 6 14 12 0 0) = 4 \<and>
   calculate_calendar_days (mk_datetime 2024 6 10 10 0 0) (mk_datetime 2024 6 14 12 0 0) = 4"
  by code_simp

section \<open>The loop body on one task\<close>

lemma process_task_Inr:
  assumes "process_task lk f now task = Inr pt"
  obtains deadline_dt where
    "parse_deadline f (t_date_deadline task) = Inr deadline_dt"
    "deadline_math (t_is_closed task = Some True) (t_state task = Some ''1_canceled'')
       deadline_dt now =
     Inr (o_is_overdue pt, o_days_overdue pt, o_calendar_days_to_deadline pt,
          o_working_days_to_deadline pt, o_is_deadline_today pt, o_is_deadline_weekend pt)"
    "o_is_done pt = (t_is_closed task = Some True)"
    "o_is_cancelled pt = (t_state task = Some ''1_canceled'')"
  using assms
  by (auto simp: process_task_def Let_def split: sum.splits prod.splits)

lemma parse_deadline_Some:
  assumes "parse_deadline f (Some s) = Inr deadline_dt" and "s \<noteq> []"
  obtains dt where "f (replace_Z s) = Inr dt" "deadline_dt = Some dt"
  using assms by (auto simp: parse_deadline_def split: sum.splits)

lemma deadline_math_gated:
  assumes "deadline_math d c ddt now = Inr (ov, dov, cal, wrk, tdy, wkd)" and "d \<or> c"
  shows "\<not> ov \<and> dov = 0 \<and> cal = 0 \<and> wrk = 0"
  using assms by (auto simp: deadline_math_def Let_def split: option.splits if_splits sum.splits)

lemma deadline_math_overdue:
  assumes "deadline_math d c ddt now = Inr (ov, dov, cal, wrk, tdy, wkd)"
  shows "(ov \<longrightarrow> \<not> d \<and> \<not> c \<and> 1 \<le> dov) \<and> (dov \<noteq> 0 \<longrightarrow> ov)"
  using assms by (auto simp: deadline_math_def Let_def split: option.splits if_splits sum.splits)

lemma deadline_math_today_weekend:
  assumes "deadline_math d c (Some dt) now = Inr (ov, dov, cal, wrk, tdy, wkd)"
  shows "tdy = is_today dt now \<and> wkd = is_weekend dt"
  using assms by (auto simp: deadline_math_def Let_def split: option.splits if_splits sum.splits)

lemma deadline_math_open:
  assumes "deadline_math False False (Some dt) now = Inr (ov, dov, cal, wrk, tdy, wkd)"
  shows "ov = (date_of dt < date_of now) \<and>
         (ov \<longrightarrow> dov = date_of now - date_of dt \<and> cal = 0 \<and> wrk = 0) \<and>
         (\<not> ov \<longrightarrow> dov = 0 \<and> cal = calculate_calendar_days now dt \<and>
            calculate_working_days now dt = Inr wrk)"
  using assms by (auto simp: deadline_math_def Let_def split: option.splits if_splits sum.splits)

section \<open>The loop over the tasks\<close>

lemma process_loop_pointwise:
  "process_loop lk f now ts st = Inr st' \<Longrightarrow>
   \<exists>pts. processed_tasks st' = processed_tasks st @ pts \<and>
         list_all2 (\<lambda>t pt. process_task lk f now t = Inr pt) ts pts"
proof (induction ts arbitrary: st)
  case Nil
  then show ?case by simp
next
  case (Cons t ts)
  then obtain pt where pt: "process_task lk f now t = Inr pt"
    and rest: "process_loop lk f now ts (count_task pt st) = Inr st'"
    by (auto split: sum.splits)
  from Cons.IH[OF rest] obtain pts where
    "processed_tasks st' = processed_tasks (count_task pt st) @ pts"
    "list_all2 (\<lambda>t pt. process_task lk f now t = Inr pt) ts pts" by blast
  then have "processed_tasks st' = processed_tasks st @ (pt # pts)"
    and "list_all2 (\<lambda>t pt. process_task lk f now t = Inr pt) (t # ts) (pt # pts)"
    using pt by (simp_all add: count_task_def Let_def)
  then show ?case by blast
qed

lemma process_Inr:
  assumes "process data f now = Inr r"
  obtains st where
    "process_loop (build_lookups (f_projects data) (f_users data) (f_task_stages data)
         (f_project_stages data)) f now (f_tasks data)
       \<lparr>processed_tasks = [], done_count = 0, overdue_count = 0, cancelled_count = 0\<rparr> = Inr st"
    "r_tasks r = processed_tasks st"
    "r_statistics r =
       \<lparr>s_total = int (length (processed_tasks st)), s_done = done_count st,
        s_cancelled = cancelled_count st, s_overdue = overdue_count st,
        s_in_progress = int (length (processed_tasks st)) - done_count st
          - cancelled_count st - overdue_count st\<rparr>"
    "r_error r = None"
  using assms by (auto simp: process_def Let_def split: sum.splits)

lemma process_pointwise:
  assumes "process data f now = Inr r"
  shows "list_all2 (\<lambda>t pt. process_task (build_lookups (f_projects data) (f_users data)
            (f_task_stages data) (f_project_stages data)) f now t = Inr pt)
           (f_tasks data) (r_tasks r)"
proof -
  from assms obtain st where
    l: "process_loop (build_lookups (f_projects data) (f_users data) (f_task_stages data)
           (f_project_stages data)) f now (f_tasks data)
         \<lparr>processed_tasks = [], done_count = 0, overdue_count = 0, cancelled_count = 0\<rparr> = Inr st"
    and r: "r_tasks r = processed_tasks st" by (rule process_Inr)
  from process_loop_pointwise[OF l] r show ?thesis by simp
qed

lemma process_nth:
  assumes "process data f now = Inr r" and "i < length (f_tasks data)"
  shows "length (r_tasks r) = length (f_tasks data)"
    and "process_task (build_lookups (f_projects data) (f_users data) (f_task_stages data)
           (f_project_stages data)) f now (f_tasks data ! i) = Inr (r_tasks r ! i)"
  using process_pointwise[OF assms(1)] assms(2)
  by (simp_all add: list_all2_conv_all_nth)

lemma process_member:
  assumes "process data f now = Inr r" and "pt \<in> set (r_tasks r)"
  obtains t where "t \<in> set (f_tasks data)"
    "process_task (build_lookups (f_projects data) (f_users data) (f_task_stages data)
       (f_project_stages data)) f now t = Inr pt"
proof -
  from assms(2) obtain i where i: "i < length (r_tasks r)" "r_tasks r ! i = pt"
    by (auto simp: in_set_conv_nth)
  from process_pointwise[OF assms(1)] i
  have "i < length (f_tasks data)"
    and "process_task (build_lookups (f_projects data) (f_users data) (f_task_stages data)
       (f_project_stages data)) f now (f_tasks data ! i) = Inr pt"
    by (auto simp: list_all2_conv_all_nth)
  then show thesis using that[of "f_tasks data ! i"] by simp
qed

section \<open>The sample run\<close>

lemma process_loop_sample:
  "process_loop (build_lookups sample_projects sample_users sample_task_stages
       sample_project_stages) sample_fromisoformat sample_now sample_tasks
     \<lparr>processed_tasks = [], done_count = 0, overdue_count = 0, cancelled_count = 0\<rparr> =
   Inr \<lparr>processed_tasks = sample_processed, done_count = 1, overdue_count = 1,
         cancelled_count = 1\<rparr>"
  by code_simp

lemma stage_stats_sample: "fold stage_stats_step sample_processed [] = sample_stage_stats"
  by code_simp

lemma length_sample_processed: "length sample_processed = 4"
  by (simp add: sample_processed_def)

lemma process_sample: "process sample_data sample_fromisoformat sample_now = Inr sample_result"
  by (simp add: process_def sample_data_def process_loop_sample stage_stats_sample
      length_sample_processed sample_result_def Let_def)

section \<open>Overdue tasks\<close>

text \<open>
  C9: in the output of the enricher, a task marked overdue is neither done nor cancelled
  and is at least one day overdue; and a task whose \<^verbatim>\<open>days_overdue\<close> is not 0 is marked
  overdue.
\<close>

theorem overdue_only_when_open:
  assumes "process data f now = Inr r" and "pt \<in> set (r_tasks r)"
  shows "(o_is_overdue pt \<longrightarrow> \<not> o_is_done pt \<and> \<not> o_is_cancelled pt \<and> 1 \<le> o_days_overdue pt) \<and>
         (o_days_overdue pt \<noteq> 0 \<longrightarrow> o_is_overdue pt)"
proof -
  from assms obtain t where
    pt: "process_task (build_lookups (f_projects data) (f_users data) (f_task_stages data)
       (f_project_stages data)) f now t = Inr pt"
    by (rule process_member)
  from pt obtain ddt where
    m: "deadline_math (t_is_closed t = Some True) (t_state t = Some ''1_canceled'') ddt now =
     Inr (o_is_overdue pt, o_days_overdue pt, o_calendar_days_to_deadline pt,
          o_working_days_to_deadline pt, o_is_deadline_today pt, o_is_deadline_weekend pt)"
    and d: "o_is_done pt = (t_is_closed t = Some True)"
    and c: "o_is_cancelled pt = (t_state t = Some ''1_canceled'')"
    by (rule process_task_Inr)
  from deadline_math_overdue[OF m] d c show ?thesis by simp
qed

theorem overdue_only_when_open_witness:
  "process sample_data sample_fromisoformat sample_now = Inr sample_result \<and>
   r_tasks sample_result ! 0 \<in> set (r_tasks sample_result) \<and>
   o_is_overdue (r_tasks sample_result ! 0) \<and>
   \<not> o_is_done (r_tasks sample_result ! 0) \<and>
   \<not> o_is_cancelled (r_tasks sample_result ! 0) \<and>
   1 \<le> o_days_overdue (r_tasks sample_result ! 0)"
proof -
  have m: "r_tasks sample_result ! 0 \<in> set (r_tasks sample_result)"
    by (simp add: sample_result_def sample_processed_def)
  have ov: "o_is_overdue (r_tasks sample_result ! 0)"
    by (simp add: sample_result_def sample_processed_def)
  from overdue_only_when_open[OF process_sample m] ov process_sample m
  show ?thesis by simp
qed

section \<open>Done and cancelled tasks\<close>

text \<open>
  C7: a task that is done (its closed flag is exactly true) or cancelled (its state is
  \<^verbatim>\<open>1_canceled\<close>) is never marked overdue, whatever its deadline: \<^verbatim>\<open>is_overdue\<close> stays
  false and \<^verbatim>\<open>days_overdue\<close>, \<^verbatim>\<open>calendar_days_to_deadline\<close> and \<^verbatim>\<open>working_days_to_deadline\<close>
  stay 0. The task is classified as done (as cancelled when it is not done), and the
  counting step adds one to the done or the cancelled counter and leaves the overdue
  counter as it is.
\<close>

theorem done_or_cancelled_not_overdue:
  assumes "process data f now = Inr r" and "i < length (f_tasks data)"
    and "t_is_closed (f_tasks data ! i) = Some True \<or> t_state (f_tasks data ! i) = Some ''1_canceled''"
  shows "\<not> o_is_overdue (r_tasks r ! i) \<and>
         o_days_overdue (r_tasks r ! i) = 0 \<and>
         o_calendar_days_to_deadline (r_tasks r ! i) = 0 \<and>
         o_working_days_to_deadline (r_tasks r ! i) = 0 \<and>
         o_is_done (r_tasks r ! i) = (t_is_closed (f_tasks data ! i) = Some True) \<and>
         o_is_cancelled (r_tasks r ! i) = (t_state (f_tasks data ! i) = Some ''1_canceled'') \<and>
         classify (r_tasks r ! i) =
           (if t_is_closed (f_tasks data ! i) = Some True then Done else Cancelled) \<and>
         overdue_count (count_task (r_tasks r ! i) st) = overdue_count st \<and>
         done_count (count_task (r_tasks r ! i) st) + cancelled_count (count_task (r_tasks r ! i) st)
           = done_count st + cancelled_count st + 1"
proof -
  let ?t = "f_tasks data ! i" and ?pt = "r_tasks r ! i"
  from process_nth(2)[OF assms(1,2)] obtain ddt where
    m: "deadline_math (t_is_closed ?t = Some True) (t_state ?t = Some ''1_canceled'') ddt now =
     Inr (o_is_overdue ?pt, o_days_overdue ?pt, o_calendar_days_to_deadline ?pt,
          o_working_days_to_deadline ?pt, o_is_deadline_today ?pt, o_is_deadline_weekend ?pt)"
    and d: "o_is_done ?pt = (t_is_closed ?t = Some True)"
    and c: "o_is_cancelled ?pt = (t_state ?t = Some ''1_canceled'')"
    by (rule process_task_Inr)
  from deadline_math_gated[OF m assms(3)]
  have g: "\<not> o_is_overdue ?pt" "o_days_overdue ?pt = 0" "o_calendar_days_to_deadline ?pt = 0"
    "o_working_days_to_deadline ?pt = 0" by simp_all
  from d c assms(3) have cl: "classify ?pt = (if t_is_closed ?t = Some True then Done else Cancelled)"
    by (auto simp: classify_def)
  from d c assms(3) have cnt: "overdue_count (count_task ?pt st) = overdue_count st"
    "done_count (count_task ?pt st) + cancelled_count (count_task ?pt st)
           = done_count st + cancelled_count st + 1"
    by (auto simp: count_task_def Let_def)
  from g d c cl cnt show ?thesis by simp
qed

theorem done_or_cancelled_not_overdue_witness:
  "process sample_data sample_fromisoformat sample_now = Inr sample_result \<and>
   1 < length (f_tasks sample_data) \<and>
   t_is_closed (f_tasks sample_data ! 1) = Some True \<and>
   t_date_deadline (f_tasks sample_data ! 1) = Some ''2024-06-08 09:00:00'' \<and>
   \<not> o_is_overdue (r_tasks sample_result ! 1) \<and>
   o_days_overdue (r_tasks sample_result ! 1) = 0 \<and>
   o_calendar_days_to_deadline (r_tasks sample_result ! 1) = 0 \<and>
   o_working_days_to_deadline (r_tasks sample_result ! 1) = 0 \<and>
   classify (r_tasks sample_result ! 1) = Done"
proof -
  have n: "1 < length (f_tasks sample_data)" by code_simp
  have c: "t_is_closed (f_tasks sample_data ! 1) = Some True" by code_simp
  have d: "t_date_deadline (f_tasks sample_data ! 1) = Some ''2024-06-08 09:00:00''" by code_simp
  from done_or_cancelled_not_overdue[OF process_sample n disjI1[OF c]] process_sample n c d
  show ?thesis by simp
qed

section \<open>The deadline flags\<close>

text \<open>
  C10: for a task with a deadline, \<^verbatim>\<open>is_deadline_today\<close> and \<^verbatim>\<open>is_deadline_weekend\<close> are
  computed from the parsed deadline whether or not the task is done or cancelled: the
  first says that the deadline's date is the date of the current time, the second that
  the deadline falls on a Saturday or Sunday. Only \<^verbatim>\<open>is_overdue\<close>, \<^verbatim>\<open>days_overdue\<close> and the
  two days-to-deadline fields depend on the task being neither done nor cancelled: they
  keep their defaults otherwise.
\<close>

theorem deadline_flags_not_gated:
  assumes "process data f now = Inr r" and "i < length (f_tasks data)"
    and "t_date_deadline (f_tasks data ! i) = Some s" and "s \<noteq> []"
  shows "\<exists>dt. f (replace_Z s) = Inr dt \<and>
           o_is_deadline_today (r_tasks r ! i) = (date_of dt = date_of now) \<and>
           o_is_deadline_weekend (r_tasks r ! i) = (5 \<le> weekday dt) \<and>
           (o_is_done (r_tasks r ! i) \<or> o_is_cancelled (r_tasks r ! i) \<longrightarrow>
              \<not> o_is_overdue (r_tasks r ! i) \<and> o_days_overdue (r_tasks r ! i) = 0 \<and>
              o_calendar_days_to_deadline (r_tasks r ! i) = 0 \<and>
              o_working_days_to_deadline (r_tasks r ! i) = 0) \<and>
           (\<not> o_is_done (r_tasks r ! i) \<and> \<not> o_is_cancelled (r_tasks r ! i) \<longrightarrow>
              o_is_overdue (r_tasks r ! i) = (date_of dt < date_of now) \<and>
              o_days_overdue (r_tasks r ! i) =
                (if date_of dt < date_of now then date_of now - date_of dt else 0) \<and>
              o_calendar_days_to_deadline (r_tasks r ! i) =
                (if date_of dt < date_of now then 0 else calculate_calendar_days now dt) \<and>
              Inr (o_working_days_to_deadline (r_tasks r ! i)) =
                (if date_of dt < date_of now then Inr 0 else calculate_working_days now dt))"
proof -
  let ?t = "f_tasks data ! i" and ?pt = "r_tasks r ! i"
  from process_nth(2)[OF assms(1,2)] obtain ddt where
    p: "parse_deadline f (t_date_deadline ?t) = Inr ddt" and
    m: "deadline_math (t_is_closed ?t = Some True) (t_state ?t = Some ''1_canceled'') ddt now =
     Inr (o_is_overdue ?pt, o_days_overdue ?pt, o_calendar_days_to_deadline ?pt,
          o_working_days_to_deadline ?pt, o_is_deadline_today ?pt, o_is_deadline_weekend ?pt)"
    and d: "o_is_done ?pt = (t_is_closed ?t = Some True)"
    and c: "o_is_cancelled ?pt = (t_state ?t = Some ''1_canceled'')"
    by (rule process_task_Inr)
  from p assms(3,4) obtain dt where dt: "f (replace_Z s) = Inr dt" and ddt: "ddt = Some dt"
    by (auto elim: parse_deadline_Some)
  note m' = m[unfolded ddt, folded d c]
  from deadline_math_today_weekend[OF m']
  have flags: "o_is_deadline_today ?pt = (date_of dt = date_of now)"
    "o_is_deadline_weekend ?pt = (5 \<le> weekday dt)"
    by (simp_all add: is_today_def is_weekend_def)
  have gated: "o_is_done ?pt \<or> o_is_cancelled ?pt \<longrightarrow>
      \<not> o_is_overdue ?pt \<and> o_days_overdue ?pt = 0 \<and> o_calendar_days_to_deadline ?pt = 0 \<and>
      o_working_days_to_deadline ?pt = 0"
    using deadline_math_gated[OF m'] by blast
  have opn: "\<not> o_is_done ?pt \<and> \<not> o_is_cancelled ?pt \<longrightarrow>
      o_is_overdue ?pt = (date_of dt < date_of now) \<and>
      o_days_overdue ?pt = (if date_of dt < date_of now then date_of now - date_of dt else 0) \<and>
      o_calendar_days_to_deadline ?pt =
        (if date_of dt < date_of now then 0 else calculate_calendar_days now dt) \<and>
      Inr (o_working_days_to_deadline ?pt) =
        (if date_of dt < date_of now then Inr 0 else calculate_working_days now dt)"
  proof
    assume "\<not> o_is_done ?pt \<and> \<not> o_is_cancelled ?pt"
    with m' have "deadline_math False False (Some dt) now =
       Inr (o_is_overdue ?pt, o_days_overdue ?pt, o_calendar_days_to_deadline ?pt,
          o_working_days_to_deadline ?pt, o_is_deadline_today ?pt, o_is_deadline_weekend ?pt)"
      by simp
    from deadline_math_open[OF this] show "o_is_overdue ?pt = (date_of dt < date_of now) \<and>
      o_days_overdue ?pt = (if date_of dt < date_of now then date_of now - date_of dt else 0) \<and>
      o_calendar_days_to_deadline ?pt =
        (if date_of dt < date_of now then 0 else calculate_calendar_days now dt) \<and>
      Inr (o_working_days_to_deadline ?pt) =
        (if date_of dt < date_of now then Inr 0 else calculate_working_days now dt)"
      by auto
  qed
  from dt flags gated opn show ?thesis by blast
qed

theorem deadline_flags_not_gated_witness:
  "process sample_data sample_fromisoformat sample_now = Inr sample_result \<and>
   1 < length (f_tasks sample_data) \<and>
   t_date_deadline (f_tasks sample_data ! 1) = Some ''2024-06-08 09:00:00'' \<and>
   ''2024-06-08 09:00:00'' \<noteq> [] \<and>
   sample_fromisoformat (replace_Z ''2024-06-08 09:00:00'') = Inr (mk_datetime 2024 6 8 9 0 0) \<and>
   o_is_done (r_tasks sample_result ! 1) \<and>
   o_is_deadline_weekend (r_tasks sample_result ! 1) \<and>
   \<not> o_is_deadline_today (r_tasks sample_result ! 1) \<and>
   \<not> o_is_overdue (r_tasks sample_result ! 1)"
proof -
  have n: "1 < length (f_tasks sample_data)" by code_simp
  have d: "t_date_deadline (f_tasks sample_data ! 1) = Some ''2024-06-08 09:00:00''" by code_simp
  have s: "''2024-06-08 09:00:00'' \<noteq> []" by simp
  have p: "sample_fromisoformat (replace_Z ''2024-06-08 09:00:00'') = Inr (mk_datetime 2024 6 8 9 0 0)"
    by code_simp
  have dn: "o_is_done (r_tasks sample_result ! 1)"
    by (simp add: sample_result_def sample_processed_def)
  have w: "5 \<le> weekday (mk_datetime 2024 6 8 9 0 0)" by code_simp
  have t: "date_of (mk_datetime 2024 6 8 9 0 0) \<noteq> date_of sample_now" by code_simp
  from deadline_flags_not_gated[OF process_sample n d s] p dn w t process_sample n d
  show ?thesis by auto
qed

section \<open>The statistics\<close>

lemma classify_cases:
  "(classify pt = Done) = o_is_done pt"
  "(classify pt = Cancelled) = (\<not> o_is_done pt \<and> o_is_cancelled pt)"
  "(classify pt = Overdue) = (\<not> o_is_done pt \<and> \<not> o_is_cancelled pt \<and> o_is_overdue pt)"
  "(classify pt = InProgress) = (\<not> o_is_done pt \<and> \<not> o_is_cancelled pt \<and> \<not> o_is_overdue pt)"
  by (simp_all add: classify_def)

lemma count_in_append:
  "count_in cat (pts @ [pt]) = count_in cat pts + (if classify pt = cat then 1 else 0)"
  by (simp add: count_in_def)

lemma count_in_total:
  "int (length pts) =
     count_in Done pts + count_in Cancelled pts + count_in Overdue pts + count_in InProgress pts"
proof (induction pts)
  case Nil
  then show ?case by (simp add: count_in_def)
next
  case (Cons pt pts)
  then show ?case by (cases "classify pt") (simp_all add: count_in_def)
qed

lemma count_task_counts:
  assumes "done_count st = count_in Done (processed_tasks st)"
    and "cancelled_count st = count_in Cancelled (processed_tasks st)"
    and "overdue_count st = count_in Overdue (processed_tasks st)"
  shows "done_count (count_task pt st) = count_in Done (processed_tasks (count_task pt st))"
    and "cancelled_count (count_task pt st) = count_in Cancelled (processed_tasks (count_task pt st))"
    and "overdue_count (count_task pt st) = count_in Overdue (processed_tasks (count_task pt st))"
  using assms by (auto simp: count_task_def Let_def count_in_append classify_def)

lemma process_loop_counts:
  "process_loop lk f now ts st = Inr st' \<Longrightarrow>
   done_count st = count_in Done (processed_tasks st) \<Longrightarrow>
   cancelled_count st = count_in Cancelled (processed_tasks st) \<Longrightarrow>
   overdue_count st = count_in Overdue (processed_tasks st) \<Longrightarrow>
   done_count st' = count_in Done (processed_tasks st') \<and>
   cancelled_count st' = count_in Cancelled (processed_tasks st') \<and>
   overdue_count st' = count_in Overdue (processed_tasks st')"
proof (induction ts arbitrary: st)
  case Nil
  then show ?case by simp
next
  case (Cons t ts)
  from Cons.prems(1) obtain pt where
    rest: "process_loop lk f now ts (count_task pt st) = Inr st'"
    by (auto split: sum.splits)
  show ?case
    by (rule Cons.IH[OF rest count_task_counts[OF Cons.prems(2,3,4)]])
qed

text \<open>
  C1: after a run of the processing step, the total is the number of processed tasks,
  each of the four counts is the number of processed tasks that the priority chain
  done, cancelled, overdue, in progress puts into that category, and the total is the sum
  of the four counts. The chain puts every task into exactly one category: done when it
  is done; cancelled when it is not done and is cancelled; overdue when it is neither
  and is overdue; in progress otherwise.
\<close>

theorem statistics_partition:
  assumes "process data f now = Inr r"
  shows "s_total (r_statistics r) = int (length (r_tasks r)) \<and>
         length (r_tasks r) = length (f_tasks data) \<and>
         s_done (r_statistics r) = count_in Done (r_tasks r) \<and>
         s_cancelled (r_statistics r) = count_in Cancelled (r_tasks r) \<and>
         s_overdue (r_statistics r) = count_in Overdue (r_tasks r) \<and>
         s_in_progress (r_statistics r) = count_in InProgress (r_tasks r) \<and>
         s_total (r_statistics r) =
           s_done (r_statistics r) + s_cancelled (r_statistics r) + s_overdue (r_statistics r)
             + s_in_progress (r_statistics r) \<and>
         (\<forall>pt \<in> set (r_tasks r).
            (classify pt = Done) = o_is_done pt \<and>
            (classify pt = Cancelled) = (\<not> o_is_done pt \<and> o_is_cancelled pt) \<and>
            (classify pt = Overdue) = (\<not> o_is_done pt \<and> \<not> o_is_cancelled pt \<and> o_is_overdue pt) \<and>
            (classify pt = InProgress) =
              (\<not> o_is_done pt \<and> \<not> o_is_cancelled pt \<and> \<not> o_is_overdue pt))"
proof -
  from assms obtain st where
    l: "process_loop (build_lookups (f_projects data) (f_users data) (f_task_stages data)
         (f_project_stages data)) f now (f_tasks data)
       \<lparr>processed_tasks = [], done_count = 0, overdue_count = 0, cancelled_count = 0\<rparr> = Inr st"
    and t: "r_tasks r = processed_tasks st"
    and s: "r_statistics r =
       \<lparr>s_total = int (length (processed_tasks st)), s_done = done_count st,
        s_cancelled = cancelled_count st, s_overdue = overdue_count st,
        s_in_progress = int (length (processed_tasks st)) - done_count st
          - cancelled_count st - overdue_count st\<rparr>"
    by (rule process_Inr)
  have c: "done_count st = count_in Done (processed_tasks st) \<and>
   cancelled_count st = count_in Cancelled (processed_tasks st) \<and>
   overdue_count st = count_in Overdue (processed_tasks st)"
    by (rule process_loop_counts[OF l]) (simp_all add: count_in_def)
  have len: "length (r_tasks r) = length (f_tasks data)"
    using process_pointwise[OF assms] by (simp add: list_all2_lengthD)
  from c s t len count_in_total[of "processed_tasks st"] show ?thesis
    by (simp add: classify_cases)
qed

theorem statistics_partition_witness:
  "process sample_data sample_fromisoformat sample_now = Inr sample_result \<and>
   s_total (r_statistics sample_result) = 4 \<and>
   s_done (r_statistics sample_result) = count_in Done (r_tasks sample_result) \<and>
   s_done (r_statistics sample_result) = 1 \<and>
   s_cancelled (r_statistics sample_result) = 1 \<and>
   s_overdue (r_statistics sample_result) = 1 \<and>
   s_in_progress (r_statistics sample_result) = 1 \<and>
   count_in InProgress (r_tasks sample_result) = 1"
proof -
  have v: "s_total (r_statistics sample_result) = 4" "s_done (r_statistics sample_result) = 1"
    "s_cancelled (r_statistics sample_result) = 1" "s_overdue (r_statistics sample_result) = 1"
    "s_in_progress (r_statistics sample_result) = 1"
    by (simp_all add: sample_result_def sample_processed_def)
  from statistics_partition[OF process_sample] v process_sample show ?thesis by simp
qed

section \<open>The lookups and their fallbacks\<close>

lemma fold_update_map_of:
  "fold (\<lambda>(k, v) m. m(k \<mapsto> v)) kvs m0 = m0 ++ map_of (rev kvs)"
proof (induction kvs arbitrary: m0)
  case Nil
  then show ?case by simp
next
  case (Cons kv kvs)
  obtain k v where kv: "kv = (k, v)" by (cases kv)
  have "fold (\<lambda>(k, v) m. m(k \<mapsto> v)) (kv # kvs) m0
      = fold (\<lambda>(k, v) m. m(k \<mapsto> v)) kvs (m0(k \<mapsto> v))"
    by (simp add: kv)
  also have "\<dots> = m0(k \<mapsto> v) ++ map_of (rev kvs)"
    by (rule Cons.IH)
  also have "\<dots> = m0 ++ map_of (rev (kv # kvs))"
    by (rule ext) (simp add: kv map_add_def split: option.splits)
  finally show ?case .
qed

lemma dict_of_map_of: "dict_of kvs = map_of (rev kvs)"
  by (simp add: dict_of_def fold_update_map_of)

lemma dict_of_None:
  "(dict_of (map (\<lambda>x. (key x, val x)) xs) k = None) = (k \<notin> key ` set xs)"
  by (simp add: dict_of_map_of map_of_eq_None_iff image_image)

lemma dict_of_absent:
  "k \<notin> key ` set xs \<Longrightarrow> dict_of (map (\<lambda>x. (key x, val x)) xs) k = None"
  by (simp add: dict_of_None)

lemma dict_of_const:
  assumes "k \<in> key ` set xs" and "\<forall>x \<in> set xs. key x = k \<longrightarrow> val x = c"
  shows "dict_of (map (\<lambda>x. (key x, val x)) xs) k = Some c"
proof -
  from assms(1) obtain y where y: "dict_of (map (\<lambda>x. (key x, val x)) xs) k = Some y"
    using dict_of_None[of key val xs k] by (cases "dict_of (map (\<lambda>x. (key x, val x)) xs) k") auto
  then have "(k, y) \<in> set (map (\<lambda>x. (key x, val x)) xs)"
    by (auto simp: dict_of_map_of dest: map_of_SomeD)
  with assms(2) have "y = c" by auto
  with y show ?thesis by simp
qed

lemma process_task_names:
  assumes "process_task lk f now task = Inr pt"
  shows "o_project_name pt =
           dict_get (project_names lk) (map_option fst (t_project_id task)) ''No Project''"
    and "o_manager pt =
           dict_get (project_managers lk) (map_option fst (t_project_id task)) ''Unknown''"
    and "o_stage_name pt =
           dict_get (task_stage_names lk) (map_option fst (t_stage_id task)) ''No Stage''"
    and "o_project_stage_id pt =
           dict_get (project_stage_mapping lk) (map_option fst (t_project_id task)) None"
    and "o_project_stage_name pt =
           dict_get (project_stage_names lk) (o_project_stage_id pt) ''No Project Stage''"
    and "o_assignees pt =
           map (\<lambda>uid. dict_get (user_names lk) (Some uid) (''User '' @ str_int uid))
             (t_user_ids task)"
  using assms
  by (auto simp: process_task_def Let_def split: sum.splits prod.splits option.splits)

text \<open>
  C6: for the task at any position of the fetched list and its enriched task: when the
  task's project is among the fetched projects and has no manager, the manager is
  \<^verbatim>\<open>No Manager\<close>; when the project is not among the fetched projects, or the task has no
  project, the manager is \<^verbatim>\<open>Unknown\<close> and the project name is \<^verbatim>\<open>No Project\<close>; an assignee
  that is not among the fetched users is named \<^verbatim>\<open>User\<close> followed by its id; a task
  without a stage, or with a stage that is not among the fetched task stages, has the
  stage name \<^verbatim>\<open>No Stage\<close>; a task without a project stage, or with one that is not among
  the fetched project stages, has the project stage name \<^verbatim>\<open>No Project Stage\<close>.
\<close>

theorem lookup_fallbacks:
  assumes "process data f now = Inr r" and "i < length (f_tasks data)"
  shows "(\<forall>pid pn. t_project_id (f_tasks data ! i) = Some (pid, pn) \<and>
            pid \<in> p_id ` set (f_projects data) \<and>
            (\<forall>p \<in> set (f_projects data). p_id p = pid \<longrightarrow> p_user_id p = None)
            \<longrightarrow> o_manager (r_tasks r ! i) = ''No Manager'') \<and>
         (\<forall>pid pn. t_project_id (f_tasks data ! i) = Some (pid, pn) \<and>
            pid \<notin> p_id ` set (f_projects data)
            \<longrightarrow> o_manager (r_tasks r ! i) = ''Unknown'' \<and>
                o_project_name (r_tasks r ! i) = ''No Project'') \<and>
         (t_project_id (f_tasks data ! i) = None
            \<longrightarrow> o_manager (r_tasks r ! i) = ''Unknown'' \<and>
                o_project_name (r_tasks r ! i) = ''No Project'') \<and>
         length (o_assignees (r_tasks r ! i)) = length (t_user_ids (f_tasks data ! i)) \<and>
         (\<forall>j < length (t_user_ids (f_tasks data ! i)).
            t_user_ids (f_tasks data ! i) ! j \<notin> n_id ` set (f_users data)
            \<longrightarrow> o_assignees (r_tasks r ! i) ! j
                  = ''User '' @ str_int (t_user_ids (f_tasks data ! i) ! j)) \<and>
         (t_stage_id (f_tasks data ! i) = None
            \<longrightarrow> o_stage_name (r_tasks r ! i) = ''No Stage'') \<and>
         (\<forall>sid sn. t_stage_id (f_tasks data ! i) = Some (sid, sn) \<and>
            sid \<notin> n_id ` set (f_task_stages data)
            \<longrightarrow> o_stage_name (r_tasks r ! i) = ''No Stage'') \<and>
         (o_project_stage_id (r_tasks r ! i) = None
            \<longrightarrow> o_project_stage_name (r_tasks r ! i) = ''No Project Stage'') \<and>
         (\<forall>ps. o_project_stage_id (r_tasks r ! i) = Some ps \<and>
            ps \<notin> n_id ` set (f_project_stages data)
            \<longrightarrow> o_project_stage_name (r_tasks r ! i) = ''No Project Stage'')"
proof -
  let ?t = "f_tasks data ! i" and ?pt = "r_tasks r ! i"
  let ?lk = "build_lookups (f_projects data) (f_users data) (f_task_stages data)
           (f_project_stages data)"
  note pt = process_task_names[OF process_nth(2)[OF assms]]
  have managers: "project_managers ?lk =
      dict_of (map (\<lambda>proj. (p_id proj,
                 (case p_user_id proj of Some (_, n) \<Rightarrow> n | None \<Rightarrow> ''No Manager'')))
        (f_projects data))"
    and names: "project_names ?lk = dict_of (map (\<lambda>proj. (p_id proj, p_name proj)) (f_projects data))"
    and users: "user_names ?lk = dict_of (map (\<lambda>user. (n_id user, n_name user)) (f_users data))"
    and stages: "task_stage_names ?lk =
      dict_of (map (\<lambda>stage. (n_id stage, n_name stage)) (f_task_stages data))"
    and pstages: "project_stage_names ?lk =
      dict_of (map (\<lambda>stage. (n_id stage, n_name stage)) (f_project_stages data))"
    by (simp_all add: build_lookups_def)
  have c1: "\<forall>pid pn. t_project_id ?t = Some (pid, pn) \<and> pid \<in> p_id ` set (f_projects data) \<and>
            (\<forall>p \<in> set (f_projects data). p_id p = pid \<longrightarrow> p_user_id p = None)
            \<longrightarrow> o_manager ?pt = ''No Manager''"
  proof (intro allI impI, elim conjE)
    fix pid pn
    assume t: "t_project_id ?t = Some (pid, pn)" and m: "pid \<in> p_id ` set (f_projects data)"
      and a: "\<forall>p \<in> set (f_projects data). p_id p = pid \<longrightarrow> p_user_id p = None"
    have "project_managers ?lk pid = Some ''No Manager''"
      unfolding managers by (rule dict_of_const[OF m]) (use a in auto)
    with pt(2) t show "o_manager ?pt = ''No Manager''" by (simp add: dict_get_def)
  qed
  have c2: "\<forall>pid pn. t_project_id ?t = Some (pid, pn) \<and> pid \<notin> p_id ` set (f_projects data)
            \<longrightarrow> o_manager ?pt = ''Unknown'' \<and> o_project_name ?pt = ''No Project''"
    using pt(1,2) by (auto simp: dict_get_def managers names dict_of_absent)
  have c3: "t_project_id ?t = None
            \<longrightarrow> o_manager ?pt = ''Unknown'' \<and> o_project_name ?pt = ''No Project''"
    using pt(1,2) by (simp add: dict_get_def)
  have c4: "length (o_assignees ?pt) = length (t_user_ids ?t)"
    using pt(6) by simp
  have c5: "\<forall>j < length (t_user_ids ?t). t_user_ids ?t ! j \<notin> n_id ` set (f_users data)
            \<longrightarrow> o_assignees ?pt ! j = ''User '' @ str_int (t_user_ids ?t ! j)"
    using pt(6) by (auto simp: dict_get_def users dict_of_absent)
  have c6: "t_stage_id ?t = None \<longrightarrow> o_stage_name ?pt = ''No Stage''"
    using pt(3) by (simp add: dict_get_def)
  have c7: "\<forall>sid sn. t_stage_id ?t = Some (sid, sn) \<and> sid \<notin> n_id ` set (f_task_stages data)
            \<longrightarrow> o_stage_name ?pt = ''No Stage''"
    using pt(3) by (auto simp: dict_get_def stages dict_of_absent)
  have c8: "o_project_stage_id ?pt = None \<longrightarrow> o_project_stage_name ?pt = ''No Project Stage''"
    using pt(5) by (simp add: dict_get_def)
  have c9: "\<forall>ps. o_project_stage_id ?pt = Some ps \<and> ps \<notin> n_id ` set (f_project_stages data)
            \<longrightarrow> o_project_stage_name ?pt = ''No Project Stage''"
    using pt(5) by (auto simp: dict_get_def pstages dict_of_absent)
  from c1 c2 c3 c4 c5 c6 c7 c8 c9 show ?thesis by blast
qed

theorem lookup_fallbacks_witness:
  "process sample_data sample_fromisoformat sample_now = Inr sample_result \<and>
   t_project_id (f_tasks sample_data ! 0) = Some (10, ''Alpha'') \<and>
   10 \<in> p_id ` set (f_projects sample_data) \<and>
   o_manager (r_tasks sample_result ! 0) = ''No Manager'' \<and>
   t_stage_id (f_tasks sample_data ! 1) = None \<and>
   o_stage_name (r_tasks sample_result ! 1) = ''No Stage'' \<and>
   t_project_id (f_tasks sample_data ! 2) = Some (11, ''Beta'') \<and>
   11 \<notin> p_id ` set (f_projects sample_data) \<and>
   o_manager (r_tasks sample_result ! 2) = ''Unknown'' \<and>
   o_project_name (r_tasks sample_result ! 2) = ''No Project'' \<and>
   o_project_stage_id (r_tasks sample_result ! 2) = None \<and>
   o_project_stage_name (r_tasks sample_result ! 2) = ''No Project Stage'' \<and>
   t_user_ids (f_tasks sample_data ! 3) = [9] \<and>
   9 \<notin> n_id ` set (f_users sample_data) \<and>
   o_assignees (r_tasks sample_result ! 3) = [''User 9'']"
proof -
  have n: "0 < length (f_tasks sample_data)" "1 < length (f_tasks sample_data)"
    "2 < length (f_tasks sample_data)" "3 < length (f_tasks sample_data)"
    by code_simp+
  have h0: "t_project_id (f_tasks sample_data ! 0) = Some (10, ''Alpha'')"
    "10 \<in> p_id ` set (f_projects sample_data)"
    "\<forall>p \<in> set (f_projects sample_data). p_id p = 10 \<longrightarrow> p_user_id p = None"
    by code_simp+
  have h1: "t_stage_id (f_tasks sample_data ! 1) = None" by code_simp
  have h2: "t_project_id (f_tasks sample_data ! 2) = Some (11, ''Beta'')"
    "11 \<notin> p_id ` set (f_projects sample_data)"
    by code_simp+
  have h2': "o_project_stage_id (r_tasks sample_result ! 2) = None"
    by (simp add: sample_result_def sample_processed_def)
  have h3: "t_user_ids (f_tasks sample_data ! 3) = [9]"
    "9 \<notin> n_id ` set (f_users sample_data)" "''User '' @ str_int 9 = ''User 9''"
    by code_simp+
  from lookup_fallbacks[OF process_sample n(1)] h0
  have c0: "o_manager (r_tasks sample_result ! 0) = ''No Manager''" by blast
  from lookup_fallbacks[OF process_sample n(2)] h1
  have c1: "o_stage_name (r_tasks sample_result ! 1) = ''No Stage''" by blast
  from lookup_fallbacks[OF process_sample n(3)] h2 h2'
  have c2: "o_manager (r_tasks sample_result ! 2) = ''Unknown''"
    "o_project_name (r_tasks sample_result ! 2) = ''No Project''"
    "o_project_stage_name (r_tasks sample_result ! 2) = ''No Project Stage''" by blast+
  from lookup_fallbacks[OF process_sample n(4)] h3
  have "length (o_assignees (r_tasks sample_result ! 3)) = 1"
    "o_assignees (r_tasks sample_result ! 3) ! 0 = ''User 9''" by auto
  then have c3: "o_assignees (r_tasks sample_result ! 3) = [''User 9'']"
    by (cases "o_assignees (r_tasks sample_result ! 3)") auto
  from process_sample h0 h1 h2 h2' h3 c0 c1 c2 c3 show ?thesis by simp
qed

section \<open>The requests of the data fetch\<close>

lemma fetch_sample:
  "fetch sample_backend 2 [] =
     ([SearchReadTasks 2, ReadRequest 2 ''project.project'' [10, 11],
       ReadRequest 2 ''res.users'' [7, 8, 9], ReadRequest 2 ''project.task.type'' [5],
       ReadRequest 2 ''project.project.stage'' [3]], Inr sample_data)"
  by code_simp

text \<open>
  C3, as stated, asks that none of the four reads is issued with an empty list of ids.
  With no task to fetch, the reads of the projects, the users and the task stages are
  all issued with the empty list.
\<close>

theorem reads_issued_with_empty_ids:
  "fst (fetch idle_backend 2 []) =
     [SearchReadTasks 2, ReadRequest 2 ''project.project'' [], ReadRequest 2 ''res.users'' [],
      ReadRequest 2 ''project.task.type'' []]"
  by code_simp

text \<open>
  C3, amended: the read of the project stages is never issued with an empty list of
  ids, in a fetch that succeeds or fails; when the projects refer to no project stage
  it is skipped and the project stages are the empty list. The reads of the projects,
  the users and the task stages are issued in every fetch that succeeds, with the ids
  the tasks refer to, whether or not that list is empty.
\<close>

theorem project_stage_read_guarded:
  assumes "fetch be uid log0 = (sent, res)"
  shows "(\<exists>new. sent = log0 @ new \<and>
            (\<forall>u ids. ReadRequest u ''project.project.stage'' ids \<in> set new \<longrightarrow> ids \<noteq> [])) \<and>
         (\<forall>data. res = Inr data \<longrightarrow>
            sent = log0 @
              [SearchReadTasks uid,
               ReadRequest uid ''project.project'' (fst (collect_ids (f_tasks data) ([], [], []))),
               ReadRequest uid ''res.users'' (fst (snd (collect_ids (f_tasks data) ([], [], [])))),
               ReadRequest uid ''project.task.type''
                 (snd (snd (collect_ids (f_tasks data) ([], [], []))))] @
              (if collect_project_stage_ids (f_projects data) [] = [] then []
               else [ReadRequest uid ''project.project.stage''
                       (collect_project_stage_ids (f_projects data) [])]) \<and>
            (collect_project_stage_ids (f_projects data) [] = [] \<longrightarrow> f_project_stages data = []))"
  using assms
  by (auto simp: fetch_def rpc_call_def Let_def split: sum.splits prod.splits if_splits)

theorem project_stage_read_guarded_witness:
  "fetch sample_backend 2 [] =
     ([SearchReadTasks 2, ReadRequest 2 ''project.project'' [10, 11],
       ReadRequest 2 ''res.users'' [7, 8, 9], ReadRequest 2 ''project.task.type'' [5],
       ReadRequest 2 ''project.project.stage'' [3]], Inr sample_data) \<and>
   collect_project_stage_ids (f_projects sample_data) [] = [3] \<and>
   f_project_stages sample_data = sample_project_stages"
proof -
  from project_stage_read_guarded[OF fetch_sample]
  have "collect_project_stage_ids (f_projects sample_data) [] \<noteq> []"
    by (auto split: if_splits)
  moreover have "collect_project_stage_ids (f_projects sample_data) [] = [3]" by code_simp
  moreover have "f_project_stages sample_data = sample_project_stages"
    by (simp add: sample_data_def)
  ultimately show ?thesis using fetch_sample by simp
qed

section \<open>The exception handler\<close>

text \<open>
  C4: when the authentication, the fetch or the processing raises an exception, the
  entry point returns the result with no task, the five counts at 0, no stage
  statistics, and the message of the exception in the error field.
\<close>

theorem exceptions_become_error_result:
  assumes "snd (authenticate be) = Inl e \<or>
           (\<exists>sent uid. authenticate be = (sent, Inr uid) \<and>
              (snd (fetch be uid sent) = Inl e \<or>
               (\<exists>sent' data. fetch be uid sent = (sent', Inr data) \<and> process data f now = Inl e)))"
  shows "get_tasks_data be f now =
           \<lparr>r_tasks = [],
            r_statistics = \<lparr>s_total = 0, s_done = 0, s_cancelled = 0, s_overdue = 0,
                              s_in_progress = 0\<rparr>,
            r_stage_statistics = [],
            r_error = Some (str_exception e)\<rparr>"
  using assms
  by (auto simp: get_tasks_data_def pipeline_def error_result_def split: prod.splits sum.splits)

theorem exceptions_become_error_result_witness:
  "snd (authenticate rejecting_backend) = Inl (Exception ''Failed to authenticate'') \<and>
   get_tasks_data rejecting_backend sample_fromisoformat sample_now =
     \<lparr>r_tasks = [],
      r_statistics = \<lparr>s_total = 0, s_done = 0, s_cancelled = 0, s_overdue = 0,
                        s_in_progress = 0\<rparr>,
      r_stage_statistics = [],
      r_error = Some ''Failed to authenticate''\<rparr> \<and>
   authenticate failing_backend = ([AuthenticateRequest], Inr 2) \<and>
   snd (fetch failing_backend 2 [AuthenticateRequest]) = Inl (HTTPError ''500 Server Error'') \<and>
   r_error (get_tasks_data failing_backend sample_fromisoformat sample_now)
     = Some ''500 Server Error'' \<and>
   authenticate bad_deadline_backend = ([AuthenticateRequest], Inr 2) \<and>
   snd (fetch bad_deadline_backend 2 [AuthenticateRequest]) = Inr bad_deadline_data \<and>
   process bad_deadline_data sample_fromisoformat sample_now
     = Inl (ValueError ''Invalid isoformat string: next week'') \<and>
   r_error (get_tasks_data bad_deadline_backend sample_fromisoformat sample_now)
     = Some ''Invalid isoformat string: next week'' \<and>
   r_tasks (get_tasks_data bad_deadline_backend sample_fromisoformat sample_now) = []"
proof -
  have a: "snd (authenticate rejecting_backend) = Inl (Exception ''Failed to authenticate'')"
    by code_simp
  have b: "authenticate failing_backend = ([AuthenticateRequest], Inr 2)"
    "snd (fetch failing_backend 2 [AuthenticateRequest]) = Inl (HTTPError ''500 Server Error'')"
    by code_simp+
  have c: "authenticate bad_deadline_backend = ([AuthenticateRequest], Inr 2)"
    "fetch bad_deadline_backend 2 [AuthenticateRequest] =
       (fst (fetch bad_deadline_backend 2 [AuthenticateRequest]), Inr bad_deadline_data)"
    "process bad_deadline_data sample_fromisoformat sample_now
       = Inl (ValueError ''Invalid isoformat string: next week'')"
    by code_simp+
  have c': "snd (fetch bad_deadline_backend 2 [AuthenticateRequest]) = Inr bad_deadline_data"
    by (subst c(2)) simp
  have r1: "get_tasks_data rejecting_backend sample_fromisoformat sample_now =
     \<lparr>r_tasks = [],
      r_statistics = \<lparr>s_total = 0, s_done = 0, s_cancelled = 0, s_overdue = 0,
                        s_in_progress = 0\<rparr>,
      r_stage_statistics = [],
      r_error = Some ''Failed to authenticate''\<rparr>"
    using exceptions_become_error_result[of rejecting_backend "Exception ''Failed to authenticate''"
        sample_fromisoformat sample_now] a by simp
  have r2: "r_error (get_tasks_data failing_backend sample_fromisoformat sample_now)
     = Some ''500 Server Error''"
    using exceptions_become_error_result[of failing_backend "HTTPError ''500 Server Error''"
        sample_fromisoformat sample_now] b by simp
  have "\<exists>sent uid. authenticate bad_deadline_backend = (sent, Inr uid) \<and>
      (snd (fetch bad_deadline_backend uid sent)
         = Inl (ValueError ''Invalid isoformat string: next week'') \<or>
       (\<exists>sent' data. fetch bad_deadline_backend uid sent = (sent', Inr data) \<and>
          process data sample_fromisoformat sample_now
            = Inl (ValueError ''Invalid isoformat string: next week'')))"
    using c by blast
  then have r3: "get_tasks_data bad_deadline_backend sample_fromisoformat sample_now =
     \<lparr>r_tasks = [],
      r_statistics = \<lparr>s_total = 0, s_done = 0, s_cancelled = 0, s_overdue = 0,
                        s_in_progress = 0\<rparr>,
      r_stage_statistics = [],
      r_error = Some (str_exception (ValueError ''Invalid isoformat string: next week''))\<rparr>"
    by (intro exceptions_become_error_result disjI2)
  from a b c(1,3) c' r1 r2 r3 show ?thesis by simp
qed

section \<open>The percentages of a stage\<close>

text \<open>
  Rounding to the nearest integer is off by at most a half; rounding to the nearest
  double is off by at most half a unit in the last place, which for a value up to 128
  is below \<open>10\<^sup>-\<^sup>9\<close>.
\<close>

lemma round_half_even_bound: "\<bar>of_int (round_half_even y) - y\<bar> \<le> 1 / 2"
proof -
  have "of_int \<lfloor>y\<rfloor> \<le> y" "y < of_int \<lfloor>y\<rfloor> + 1" by linarith+
  then show ?thesis by (auto simp: round_half_even_def Let_def)
qed

lemma round_half_even_nonneg: "0 \<le> y \<Longrightarrow> 0 \<le> round_half_even y"
  by (auto simp: round_half_even_def Let_def)

lemma binary_exponent_bounds:
  assumes "0 < x"
  shows "2 powi (binary_exponent x) \<le> x" and "x < 2 powi (binary_exponent x + 1)"
proof -
  obtain p q where pq: "quotient_of x = (p, q)" by (cases "quotient_of x")
  then have q: "0 < q" and x: "x = of_int p / of_int q"
    by (simp_all add: quotient_of_denom_pos quotient_of_div)
  with assms have p: "0 < p" by (simp add: zero_less_divide_iff)
  from bitlen_bounds[OF p] have bp: "1 \<le> bitlen p"
    and p1: "(2::int) ^ nat (bitlen p - 1) \<le> p" and p2: "p < 2 ^ nat (bitlen p)"
    using p by (auto simp: bitlen_alt_def)
  from bitlen_bounds[OF q] have bq: "1 \<le> bitlen q"
    and q1: "(2::int) ^ nat (bitlen q - 1) \<le> q" and q2: "q < 2 ^ nat (bitlen q)"
    using q by (auto simp: bitlen_alt_def)
  have P1: "(2::rat) powi (bitlen p - 1) \<le> of_int p"
  proof -
    have "(2::rat) powi (bitlen p - 1) = of_int (2 ^ nat (bitlen p - 1))"
      using bp by (simp add: power_int_def)
    also have "\<dots> \<le> of_int p" using p1 by (simp only: of_int_le_iff)
    finally show ?thesis .
  qed
  have P2: "of_int p < (2::rat) powi (bitlen p)"
  proof -
    have "(of_int p :: rat) < of_int (2 ^ nat (bitlen p))" using p2 by (simp only: of_int_less_iff)
    also have "\<dots> = 2 powi (bitlen p)" using bp by (simp add: power_int_def)
    finally show ?thesis .
  qed
  have Q1: "(2::rat) powi (bitlen q - 1) \<le> of_int q"
  proof -
    have "(2::rat) powi (bitlen q - 1) = of_int (2 ^ nat (bitlen q - 1))"
      using bq by (simp add: power_int_def)
    also have "\<dots> \<le> of_int q" using q1 by (simp only: of_int_le_iff)
    finally show ?thesis .
  qed
  have Q2: "of_int q < (2::rat) powi (bitlen q)"
  proof -
    have "(of_int q :: rat) < of_int (2 ^ nat (bitlen q))" using q2 by (simp only: of_int_less_iff)
    also have "\<dots> = 2 powi (bitlen q)" using bq by (simp add: power_int_def)
    finally show ?thesis .
  qed
  have qpos: "(0::rat) < of_int q" using q by simp
  have ppos: "(0::rat) < of_int p" using p by simp
  have lo: "(2::rat) powi (bitlen p - bitlen q - 1) \<le> x"
  proof -
    have "bitlen p - bitlen q - 1 = (bitlen p - 1) - bitlen q" by simp
    then have "(2::rat) powi (bitlen p - bitlen q - 1) = 2 powi (bitlen p - 1) / 2 powi (bitlen q)"
      by (simp only: power_int_diff[of "2::rat", simplified])
    also have "\<dots> \<le> of_int p / 2 powi (bitlen q)"
      using P1 by (simp add: divide_right_mono)
    also have "\<dots> \<le> of_int p / of_int q"
      using Q2 qpos ppos by (simp add: frac_le)
    finally show ?thesis by (simp add: x)
  qed
  have hi: "x < (2::rat) powi (bitlen p - bitlen q + 1)"
  proof -
    have "x = of_int p / of_int q" by (rule x)
    also have "\<dots> < 2 powi (bitlen p) / of_int q"
      using P2 qpos by (simp add: divide_strict_right_mono)
    also have "\<dots> \<le> 2 powi (bitlen p) / 2 powi (bitlen q - 1)"
      using Q1 qpos by (intro divide_left_mono) (auto intro!: mult_pos_pos)
    also have "\<dots> = 2 powi (bitlen p - (bitlen q - 1))"
      by (simp only: power_int_diff[of "2::rat", simplified])
    also have "bitlen p - (bitlen q - 1) = bitlen p - bitlen q + 1" by simp
    finally show ?thesis .
  qed
  show "2 powi (binary_exponent x) \<le> x"
    using lo by (simp add: binary_exponent_def pq Let_def)
  show "x < 2 powi (binary_exponent x + 1)"
    using hi by (auto simp: binary_exponent_def pq Let_def)
qed


lemma fl_nonneg: "0 \<le> x \<Longrightarrow> 0 \<le> fl x"
  by (auto simp: fl_def Let_def intro!: mult_nonneg_nonneg round_half_even_nonneg divide_nonneg_nonneg)

lemma fl_error:
  assumes "0 \<le> x" and "x \<le> 128"
  shows "\<bar>fl x - x\<bar> \<le> 1 / 1000000000"
proof (cases "x = 0")
  case True
  then show ?thesis by (simp add: fl_def)
next
  case False
  with assms have pos: "0 < x" by simp
  define e where "e = binary_exponent x"
  define u :: rat where "u = 2 powi (max (e - 52) (- 1074))"
  have upos: "0 < u" by (simp add: u_def)
  have "2 powi e \<le> x" unfolding e_def by (rule binary_exponent_bounds(1)[OF pos])
  with assms(2) have le128: "(2::rat) powi e \<le> 2 powi 7" by simp
  have e7: "e \<le> 7"
  proof (rule ccontr)
    assume "\<not> e \<le> 7"
    then have "8 \<le> e" by simp
    then have "(2::rat) powi 8 \<le> 2 powi e" by (intro power_int_increasing) simp_all
    with le128 show False by simp
  qed
  then have "max (e - 52) (- 1074) \<le> - 45" by simp
  then have "u \<le> 2 powi (- 45)" unfolding u_def by (intro power_int_increasing) simp_all
  also have "(2::rat) powi (- 45) \<le> 2 / 1000000000" by (simp add: power_int_minus)
  finally have u45: "u \<le> 2 / 1000000000" .
  have flx: "fl x = of_int (round_half_even (x / u)) * u"
    using pos by (simp add: fl_def Let_def e_def u_def)
  have "fl x - x = (of_int (round_half_even (x / u)) - x / u) * u"
    using upos by (simp add: flx algebra_simps)
  then have "\<bar>fl x - x\<bar> = \<bar>of_int (round_half_even (x / u)) - x / u\<bar> * u"
    using upos by (simp add: abs_mult)
  also have "\<dots> \<le> (1 / 2) * u"
    using round_half_even_bound[of "x / u"] upos by (intro mult_right_mono) simp_all
  also have "\<dots> \<le> 1 / 1000000000"
    using u45 by simp
  finally show ?thesis .
qed

lemma py_percentage_error:
  assumes "0 \<le> c" and "c \<le> t" and "0 < t"
  shows "\<bar>py_percentage c t - 100 * of_int c / of_int t\<bar> \<le> 1 / 20 + 1 / 1000000"
proof -
  define q :: rat where "q = of_int c / of_int t"
  define x1 where "x1 = fl q"
  define x2 where "x2 = fl (x1 * 100)"
  define d where "d = round_half_even (x2 * 10)"
  define y :: rat where "y = of_int d / 10"
  have q0: "0 \<le> q" and q1: "q \<le> 1"
    using assms by (simp_all add: q_def divide_le_eq)
  have e1: "\<bar>x1 - q\<bar> \<le> 1 / 1000000000"
    unfolding x1_def using q0 q1 by (intro fl_error) simp_all
  have x1n: "0 \<le> x1" unfolding x1_def using q0 by (rule fl_nonneg)
  have x1b: "x1 * 100 \<le> 128" using e1 q1 by linarith
  have e2: "\<bar>x2 - x1 * 100\<bar> \<le> 1 / 1000000000"
    unfolding x2_def using x1n x1b by (intro fl_error) simp_all
  have x2n: "0 \<le> x2" unfolding x2_def using x1n by (intro fl_nonneg) simp
  have e3: "\<bar>of_int d - x2 * 10\<bar> \<le> 1 / 2"
    unfolding d_def by (rule round_half_even_bound)
  have dn: "0 \<le> d" unfolding d_def using x2n by (intro round_half_even_nonneg) simp
  have yn: "0 \<le> y" unfolding y_def using dn by simp
  have yd: "of_int d = y * 10" by (simp add: y_def)
  have e3': "\<bar>y - x2\<bar> \<le> 1 / 20" using e3 unfolding yd by linarith
  have yb: "y \<le> 128" using e3' e2 e1 q1 by linarith
  have e4: "\<bar>fl y - y\<bar> \<le> 1 / 1000000000" using yn yb by (rule fl_error)
  have p: "py_percentage c t = fl y"
    by (simp add: py_percentage_def py_round_def y_def d_def x2_def x1_def q_def)
  have "\<bar>fl y - 100 * q\<bar> \<le> 1 / 20 + 1 / 1000000"
    using e1 e2 e3' e4 by linarith
  then show ?thesis by (simp add: p q_def)
qed

lemma percentages_sum:
  assumes "0 \<le> a" "0 \<le> b" "0 \<le> c" "0 \<le> d" and "t = a + b + c + d" and "0 < t"
  shows "\<bar>py_percentage a t + py_percentage b t + py_percentage c t + py_percentage d t - 100\<bar>
           \<le> 4 / 10"
proof -
  define A :: rat where "A = 100 * of_int a / of_int t"
  define B :: rat where "B = 100 * of_int b / of_int t"
  define C :: rat where "C = 100 * of_int c / of_int t"
  define D :: rat where "D = 100 * of_int d / of_int t"
  have "A + B + C + D = (100 * of_int t / of_int t :: rat)"
    by (simp add: A_def B_def C_def D_def assms(5) add_divide_distrib algebra_simps)
  also have "\<dots> = 100" using assms(6) by simp
  finally have s: "A + B + C + D = 100" .
  have ea: "\<bar>py_percentage a t - A\<bar> \<le> 1 / 20 + 1 / 1000000"
    unfolding A_def using assms by (intro py_percentage_error) simp_all
  have eb: "\<bar>py_percentage b t - B\<bar> \<le> 1 / 20 + 1 / 1000000"
    unfolding B_def using assms by (intro py_percentage_error) simp_all
  have ec: "\<bar>py_percentage c t - C\<bar> \<le> 1 / 20 + 1 / 1000000"
    unfolding C_def using assms by (intro py_percentage_error) simp_all
  have ed: "\<bar>py_percentage d t - D\<bar> \<le> 1 / 20 + 1 / 1000000"
    unfolding D_def using assms by (intro py_percentage_error) simp_all
  from ea eb ec ed s show ?thesis by linarith
qed


text \<open>The counts of every stage stay consistent through the loop of step 9.\<close>

lemma update_member:
  "(k', v') \<in> set (AList.update k v al) \<Longrightarrow> (k', v') = (k, v) \<or> (k', v') \<in> set al"
  by (induction al) (auto split: if_splits)

lemma bump_well_counted:
  assumes "well_counted c"
  shows "well_counted (bump cat (c\<lparr>c_total := c_total c + 1\<rparr>))"
  using assms by (cases cat) (simp_all add: well_counted_def bump_def)

lemma stage_stats_step_well_counted:
  assumes "\<forall>(k, c) \<in> set stage_stats. well_counted c"
  shows "\<forall>(k, c) \<in> set (stage_stats_step pt stage_stats). well_counted c"
proof -
  let ?zero = "\<lparr>c_total = 0, c_done = 0, c_overdue = 0, c_in_progress = 0, c_cancelled = 0\<rparr>"
  let ?cur = "case map_of stage_stats (o_project_stage_name pt) of None \<Rightarrow> ?zero | Some c \<Rightarrow> c"
  have "well_counted ?cur"
  proof (cases "map_of stage_stats (o_project_stage_name pt)")
    case None
    then show ?thesis by (simp add: well_counted_def)
  next
    case (Some c)
    then have "(o_project_stage_name pt, c) \<in> set stage_stats" by (rule map_of_SomeD)
    with assms Some show ?thesis by auto
  qed
  then have new: "well_counted (bump (classify pt) (?cur\<lparr>c_total := c_total ?cur + 1\<rparr>))"
    by (rule bump_well_counted)
  show ?thesis
  proof (intro ballI, clarify)
    fix k c
    assume "(k, c) \<in> set (stage_stats_step pt stage_stats)"
    then have "(k, c) = (o_project_stage_name pt,
                 bump (classify pt) (?cur\<lparr>c_total := c_total ?cur + 1\<rparr>))
               \<or> (k, c) \<in> set stage_stats"
      unfolding stage_stats_step_def Let_def by (rule update_member)
    with new assms show "well_counted c" by auto
  qed
qed

lemma fold_stage_stats_well_counted:
  "\<forall>(k, c) \<in> set stage_stats. well_counted c \<Longrightarrow>
   \<forall>(k, c) \<in> set (fold stage_stats_step pts stage_stats). well_counted c"
proof (induction pts arbitrary: stage_stats)
  case Nil
  then show ?case by simp
next
  case (Cons pt pts)
  from Cons.IH[OF stage_stats_step_well_counted[OF Cons.prems]] show ?case by simp
qed

lemma stage_percentages_member:
  assumes "(stage_name, e) \<in> set (stage_percentages stage_stats)"
  obtains stats where "(stage_name, stats) \<in> set stage_stats" "0 < c_total stats"
    "se_total e = c_total stats" "se_done_count e = c_done stats"
    "se_overdue_count e = c_overdue stats" "se_in_progress_count e = c_in_progress stats"
    "se_cancelled_count e = c_cancelled stats"
    "se_done_percentage e = py_percentage (c_done stats) (c_total stats)"
    "se_overdue_percentage e = py_percentage (c_overdue stats) (c_total stats)"
    "se_in_progress_percentage e = py_percentage (c_in_progress stats) (c_total stats)"
    "se_cancelled_percentage e = py_percentage (c_cancelled stats) (c_total stats)"
  using assms by (auto simp: stage_percentages_def)

lemma process_stage_statistics:
  assumes "process data f now = Inr r"
  shows "r_stage_statistics r = stage_percentages (fold stage_stats_step (r_tasks r) [])"
  using assms by (auto simp: process_def Let_def split: sum.splits)

text \<open>
  C8: for every stage of \<^verbatim>\<open>stage_statistics\<close>, each of the four percentages is the float
  \<^verbatim>\<open>round((count / total) * 100, 1)\<close> of the entry's own count and total, the total is
  positive and is the sum of the four counts, and the sum of the four percentages (of
  the exact values of the four floats) differs from 100 by at most 0.4.
\<close>

theorem stage_percentages_sum:
  assumes "process data f now = Inr r" and "(stage_name, e) \<in> set (r_stage_statistics r)"
  shows "se_done_percentage e = py_percentage (se_done_count e) (se_total e) \<and>
         se_overdue_percentage e = py_percentage (se_overdue_count e) (se_total e) \<and>
         se_in_progress_percentage e = py_percentage (se_in_progress_count e) (se_total e) \<and>
         se_cancelled_percentage e = py_percentage (se_cancelled_count e) (se_total e) \<and>
         0 < se_total e \<and>
         se_total e = se_done_count e + se_overdue_count e + se_in_progress_count e
           + se_cancelled_count e \<and>
         \<bar>se_done_percentage e + se_overdue_percentage e + se_in_progress_percentage e
            + se_cancelled_percentage e - 100\<bar> \<le> 4 / 10"
proof -
  let ?stats = "fold stage_stats_step (r_tasks r) []"
  from assms have "(stage_name, e) \<in> set (stage_percentages ?stats)"
    by (simp add: process_stage_statistics)
  then obtain stats where m: "(stage_name, stats) \<in> set ?stats" and t: "0 < c_total stats"
    and f: "se_total e = c_total stats" "se_done_count e = c_done stats"
    "se_overdue_count e = c_overdue stats" "se_in_progress_count e = c_in_progress stats"
    "se_cancelled_count e = c_cancelled stats"
    and p: "se_done_percentage e = py_percentage (c_done stats) (c_total stats)"
    "se_overdue_percentage e = py_percentage (c_overdue stats) (c_total stats)"
    "se_in_progress_percentage e = py_percentage (c_in_progress stats) (c_total stats)"
    "se_cancelled_percentage e = py_percentage (c_cancelled stats) (c_total stats)"
    by (rule stage_percentages_member)
  have "\<forall>(k, c) \<in> set ?stats. well_counted c"
    by (rule fold_stage_stats_well_counted) simp
  with m have w: "well_counted stats" by auto
  then have nn: "0 \<le> c_done stats" "0 \<le> c_overdue stats" "0 \<le> c_in_progress stats"
    "0 \<le> c_cancelled stats"
    and tot: "c_total stats = c_done stats + c_overdue stats + c_in_progress stats + c_cancelled stats"
    by (simp_all add: well_counted_def)
  have "\<bar>py_percentage (c_done stats) (c_total stats)
         + py_percentage (c_overdue stats) (c_total stats)
         + py_percentage (c_in_progress stats) (c_total stats)
         + py_percentage (c_cancelled stats) (c_total stats) - 100\<bar> \<le> 4 / 10"
    by (rule percentages_sum[OF nn tot t])
  with f p t tot show ?thesis by simp
qed

theorem stage_percentages_sum_witness:
  "process sample_data sample_fromisoformat sample_now = Inr sample_result \<and>
   hd (r_stage_statistics sample_result) \<in> set (r_stage_statistics sample_result) \<and>
   fst (hd (r_stage_statistics sample_result)) = ''Build'' \<and>
   se_total (snd (hd (r_stage_statistics sample_result))) = 3 \<and>
   se_done_percentage (snd (hd (r_stage_statistics sample_result))) = py_percentage 1 3 \<and>
   py_percentage 1 3 = 2343279181116211 / 70368744177664 \<and>
   se_cancelled_percentage (snd (hd (r_stage_statistics sample_result))) = 0 \<and>
   \<bar>se_done_percentage (snd (hd (r_stage_statistics sample_result)))
      + se_overdue_percentage (snd (hd (r_stage_statistics sample_result)))
      + se_in_progress_percentage (snd (hd (r_stage_statistics sample_result)))
      + se_cancelled_percentage (snd (hd (r_stage_statistics sample_result))) - 100\<bar> \<le> 4 / 10"
proof -
  have v: "py_percentage 1 3 = 2343279181116211 / 70368744177664" "py_percentage 0 3 = 0"
    by code_simp+
  have s: "r_stage_statistics sample_result
     = [(''Build'',
         \<lparr>se_total = 3, se_done_percentage = py_percentage 1 3,
          se_overdue_percentage = py_percentage 1 3,
          se_in_progress_percentage = py_percentage 1 3,
          se_cancelled_percentage = py_percentage 0 3, se_done_count = 1,
          se_overdue_count = 1, se_in_progress_count = 1, se_cancelled_count = 0\<rparr>),
        (''No Project Stage'',
         \<lparr>se_total = 1, se_done_percentage = py_percentage 0 1,
          se_overdue_percentage = py_percentage 0 1,
          se_in_progress_percentage = py_percentage 0 1,
          se_cancelled_percentage = py_percentage 1 1, se_done_count = 0,
          se_overdue_count = 0, se_in_progress_count = 0, se_cancelled_count = 1\<rparr>)]"
    by (simp add: sample_result_def sample_stage_stats_def stage_percentages_def)
  have m: "(fst (hd (r_stage_statistics sample_result)), snd (hd (r_stage_statistics sample_result)))
      \<in> set (r_stage_statistics sample_result)"
    by (simp add: s)
  from stage_percentages_sum[OF process_sample m] process_sample v show ?thesis
    by (simp add: s)
qed


end
